theory Spec2Isabelle
  imports Main "HOL-Library.Sublist"
begin

section \<open>Exceptions\<close>

text \<open>
  Every exception the modelled code raises or lets through is a value of \<open>exn\<close>; a
  function that may raise returns \<open>exn + 'a\<close>, with \<open>Inl\<close> for the raised exception.
  \<open>ExtensionFailed key cause\<close> wraps the original error, as
  \<^verbatim>\<open>commands.errors.ExtensionFailed(key, error)\<close> does.
\<close>

datatype exn =
    ValueError string
  | FileNotFoundError string
  | OSError string
  | AssertionError string
  | TOMLDecodeError string
  | InvalidRequirement string
  | YAMLError string
  | CalledProcessError int "string list"
  | RequirementInstallSuccessError string
  | ClientException string
  | ExtensionAlreadyLoaded string
  | ExtensionNotFound string
  | NoEntryPointError string
  | ExtensionFailed string exn
  | KeyError string
  | UserError string

section \<open>Paths and files\<close>

text \<open>
  A path is the list of its components below the file-system root (all paths are
  absolute, as after \<^verbatim>\<open>Path.resolve()\<close>). Regular files are a partial map from paths
  to their text.
\<close>

type_synonym path = "string list"
type_synonym files = "path \<rightharpoonup> string"

definition is_file :: "files \<Rightarrow> path \<Rightarrow> bool" where
  "is_file fs p = (fs p \<noteq> None)"

fun strip_prefix :: "'a list \<Rightarrow> 'a list \<Rightarrow> 'a list option" where
  "strip_prefix [] ys = Some ys"
| "strip_prefix (x # xs) [] = None"
| "strip_prefix (x # xs) (y # ys) = (if x = y then strip_prefix xs ys else None)"

text \<open>\<^verbatim>\<open>p.relative_to(base)\<close>: the components of \<open>p\<close> below \<open>base\<close>, or ValueError.\<close>

definition relative_to :: "path \<Rightarrow> path \<Rightarrow> exn + path" where
  "relative_to p base =
     (case strip_prefix base p of
        None \<Rightarrow> Inl (ValueError ''path is not in the subpath of base'')
      | Some rel \<Rightarrow> Inr rel)"

fun join_with :: "string \<Rightarrow> string list \<Rightarrow> string" where
  "join_with sep [] = []"
| "join_with sep [x] = x"
| "join_with sep (x # y # ys) = x @ sep @ join_with sep (y # ys)"

section \<open>components/config.py: StraponConfig\<close>

text \<open>
  The document strictyaml returns is a mapping, a sequence or a scalar. The schema is
  opaque; \<^verbatim>\<open>strictyaml.load(text, schema, label)\<close> is a parameter \<open>yaml_load\<close> of the
  model, returning the validated document or the library's error.
\<close>

datatype yaml =
    YMapping "(string \<times> yaml) list"
  | YSequence "yaml list"
  | YScalar string

type_synonym schema = string
type_synonym yaml_loader = "string \<Rightarrow> schema \<Rightarrow> string \<Rightarrow> exn + yaml"

record StraponConfig =
  schema :: schema
  priv_data :: "yaml option"
  priv_config_path :: "path option"

definition StraponConfig_init :: "schema \<Rightarrow> StraponConfig" where
  "StraponConfig_init sch = \<lparr>schema = sch, priv_data = None, priv_config_path = None\<rparr>"

text \<open>The \<^verbatim>\<open>data\<close> property: None when nothing is loaded, the mapping otherwise; the
  assertion fails on a document that is not a mapping.\<close>

definition data :: "StraponConfig \<Rightarrow> exn + (string \<times> yaml) list option" where
  "data c =
     (case priv_data c of
        None \<Rightarrow> Inr None
      | Some (YMapping d) \<Rightarrow> Inr (Some d)
      | Some _ \<Rightarrow> Inl (AssertionError ''Config data is not a dict.''))"

text \<open>
  \<^verbatim>\<open>StraponConfig.load\<close>: open the file (FileNotFoundError when absent), read it, compute
  the label relative to the working directory \<open>cwd\<close>, parse and validate, check that the
  document is a mapping, and only then store it. Returns the result and the config object.
\<close>

definition load :: "yaml_loader \<Rightarrow> path \<Rightarrow> files \<Rightarrow> StraponConfig \<Rightarrow> path
    \<Rightarrow> (exn + yaml) \<times> StraponConfig" where
  "load yaml_load cwd fs c config_path =
     (case fs config_path of
        None \<Rightarrow> (Inl (FileNotFoundError (join_with ''/'' config_path)), c)
      | Some text \<Rightarrow>
          (case relative_to config_path cwd of
             Inl e \<Rightarrow> (Inl e, c)
           | Inr rel \<Rightarrow>
               (case yaml_load text (schema c) (join_with ''/'' rel) of
                  Inl e \<Rightarrow> (Inl e, c)
                | Inr d \<Rightarrow>
                    (case d of
                       YMapping m \<Rightarrow> (Inr d, c\<lparr>priv_data := Some d\<rparr>)
                     | _ \<Rightarrow> (Inl (ValueError ''Config data is not a dict.''), c)))))"

text \<open>\<^verbatim>\<open>StraponConfig.save\<close>: ValueError when nothing is loaded, else the file is written
  with the document's text, given by the parameter \<open>as_yaml\<close>.\<close>

definition save :: "(yaml \<Rightarrow> string) \<Rightarrow> files \<Rightarrow> StraponConfig \<Rightarrow> path \<Rightarrow> exn + files" where
  "save as_yaml fs c config_path =
     (case priv_data c of
        None \<Rightarrow> Inl (ValueError ''No config loaded.'')
      | Some d \<Rightarrow> Inr (fs(config_path \<mapsto> as_yaml d)))"

section \<open>The runtime the code runs in\<close>

text \<open>
  An installed distribution has a name and a version (\<^verbatim>\<open>importlib.metadata\<close>); a parsed
  requirement has a name, a version specifier and its text (\<^verbatim>\<open>str(req)\<close>), as
  \<^verbatim>\<open>packaging.requirements.Requirement\<close> gives them. The parsed \<^verbatim>\<open>pyproject.toml\<close> is
  the optional \<^verbatim>\<open>project\<close> table with its optional keys; name and id are strings.
\<close>

record Distribution =
  dist_name :: string
  dist_version :: string

record Requirement =
  req_name :: string
  req_specifier :: string
  req_str :: string

record project_table =
  pj_name :: "string option"
  pj_id :: "string option"
  pj_dependencies :: "string list option"

type_synonym pyproject = "project_table option"

text \<open>What the installer subprocess does: the bytes it writes to each pipe, its exit
  code, and the distributions installed when it has exited.\<close>

record Process =
  stdout :: string
  stderr :: string
  returncode :: int
  installed_after :: "Distribution list"

text \<open>A handler class instance: the name it registers under and the module that defines
  its class (\<^verbatim>\<open>cog.__module__\<close>).\<close>

record Cog =
  cog_name :: string
  cog_module :: string

text \<open>
  What a unit's code does. Executing the module binds the modules it imports in
  \<^verbatim>\<open>sys.modules\<close> (its own submodules among them) and then either raises or defines the
  module's attributes; \<^verbatim>\<open>setup\<close> is absent, not a coroutine function, or a coroutine function
  whose body raises, returns something that is not a Strapon, or calls
  \<^verbatim>\<open>Strapon(bot, path, config)\<close> (with a fresh \<^verbatim>\<open>StraponConfig(schema)\<close> or
  without a config), registers cogs on it with \<^verbatim>\<open>register_cog\<close> and
  returns it.
\<close>

datatype ret_value = NotAStrapon | MakeStrapon path "schema option" "Cog list"
datatype setup_body = SetupRaises exn | SetupReturns ret_value
datatype setup_attr = NoSetup | NotCoroutine | Coroutine setup_body
datatype exec_result = ExecRaises exn | ExecOk setup_attr

record ModuleSpec =
  spec_name :: string
  exec_imports :: "string list"
  exec_module :: exec_result

text \<open>
  The library functions the code calls are parameters of the model:
  \<^verbatim>\<open>tomllib.loads\<close>, the \<^verbatim>\<open>Requirement\<close> constructor,
  \<^verbatim>\<open>importlib.metadata.version\<close> (given the installed distributions),
  \<^verbatim>\<open>version in specifier\<close>, \<^verbatim>\<open>str.lower\<close> with its Unicode case mapping,
  \<^verbatim>\<open>strictyaml.load\<close>, whether
  \<^verbatim>\<open>datetime.strptime(s, "%Y-%m-%d")\<close> accepts \<open>s\<close>, \<^verbatim>\<open>importlib.util.find_spec\<close>,
  \<^verbatim>\<open>shutil.which("uv")\<close>, \<^verbatim>\<open>sys.executable\<close>, and the child process
  \<^verbatim>\<open>asyncio.create_subprocess_exec\<close> starts for a command line.
\<close>

record pylib =
  tomllib_loads :: "string \<Rightarrow> exn + pyproject"
  parse_requirement :: "string \<Rightarrow> exn + Requirement"
  metadata_version :: "Distribution list \<Rightarrow> string \<Rightarrow> string"
  spec_contains :: "string \<Rightarrow> string \<Rightarrow> bool"
  str_lower :: "string \<Rightarrow> string"
  yaml_load :: yaml_loader
  strptime_ok :: "string \<Rightarrow> bool"
  find_spec :: "string \<Rightarrow> ModuleSpec option"
  which_uv :: bool
  sys_executable :: string
  create_subprocess_exec :: "string list \<Rightarrow> Distribution list \<Rightarrow> Process"

datatype level = DEBUG | INFO | WARNING | ERROR

text \<open>
  The state the code reads and writes: regular files, directories, the installed
  distributions, \<^verbatim>\<open>sys.modules\<close> (the names bound there), the bot's extension table (the
  keys bound there), the cogs registered with the bot in registration order, the log
  records emitted, the command lines of the subprocesses started, and the identity the
  next StraponMetadata object gets.
\<close>

record world =
  fs :: files
  dirs :: "path set"
  installed :: "Distribution list"
  sys_modules :: "string set"
  extensions :: "string set"
  cogs :: "Cog list"
  logged :: "(level \<times> string) list"
  spawned :: "string list list"
  next_obj :: nat

definition log_to :: "level \<Rightarrow> string \<Rightarrow> world \<Rightarrow> world" where
  "log_to lv msg w = w\<lparr>logged := logged w @ [(lv, msg)]\<rparr>"

text \<open>\<^verbatim>\<open>p.mkdir(parents=True, exist_ok=True)\<close>: the directory and its parents exist
  afterwards; it fails when a regular file is in the way.\<close>

definition mkdir_parents :: "path \<Rightarrow> world \<Rightarrow> exn + world" where
  "mkdir_parents p w =
     (if \<exists>q \<in> set (prefixes p). is_file (fs w) q
      then Inl (OSError ''File exists'')
      else Inr (w\<lparr>dirs := dirs w \<union> set (prefixes p)\<rparr>))"

text \<open>\<^verbatim>\<open>shutil.copy(src, dst)\<close> for files.\<close>

definition copy :: "path \<Rightarrow> path \<Rightarrow> world \<Rightarrow> exn + world" where
  "copy src dst w =
     (case fs w src of
        None \<Rightarrow> Inl (FileNotFoundError (join_with ''/'' src))
      | Some text \<Rightarrow> Inr (w\<lparr>fs := (fs w)(dst \<mapsto> text)\<rparr>))"

section \<open>components/strapon.py\<close>

subsection \<open>importable_normalise\<close>

definition is_sep :: "char \<Rightarrow> bool" where
  "is_sep c = (c = CHR ''-'' \<or> c = CHR ''_'' \<or> c = CHR ''.'')"

text \<open>\<^verbatim>\<open>re.sub(r"[-_.]+", "_", name)\<close>: scanning from the left, every maximal run of
  separator characters is replaced by one underscore.\<close>

function re_sub_runs :: "string \<Rightarrow> string" where
  "re_sub_runs [] = []"
| "re_sub_runs (c # cs) =
     (if is_sep c then CHR ''_'' # re_sub_runs (dropWhile is_sep cs)
      else c # re_sub_runs cs)"
  by pat_completeness auto
termination
  by (relation "measure length") (auto simp: length_dropWhile_le less_Suc_eq_le)

definition importable_normalise :: "pylib \<Rightarrow> string \<Rightarrow> string" where
  "importable_normalise lib name = str_lower lib (re_sub_runs name)"

text \<open>
  The normalisation in the words of the specification, for comparison with the code:
  collapse every run of \<^verbatim>\<open>-\<close>, \<^verbatim>\<open>_\<close>, \<^verbatim>\<open>.\<close> into a single \<^verbatim>\<open>_\<close>, and lowercase.
  The flag says whether the previous character belonged to a run.
\<close>

fun collapse_runs :: "bool \<Rightarrow> string \<Rightarrow> string" where
  "collapse_runs in_run [] = []"
| "collapse_runs in_run (c # cs) =
     (if is_sep c
      then (if in_run then collapse_runs True cs else CHR ''_'' # collapse_runs True cs)
      else c # collapse_runs False cs)"

definition spec_normalise :: "pylib \<Rightarrow> string \<Rightarrow> string" where
  "spec_normalise lib name = str_lower lib (collapse_runs False name)"

subsection \<open>StraponMetadata\<close>

text \<open>
  \<open>obj\<close> is the identity of the Python object (what \<^verbatim>\<open>id()\<close> returns); the class
  defines neither \<^verbatim>\<open>__eq__\<close> nor \<^verbatim>\<open>__hash__\<close>, so \<^verbatim>\<open>==\<close>, set membership and
  dictionary lookup compare identities.
\<close>

record StraponMetadata =
  obj :: nat
  display_name :: string
  id_str :: string
  requirements :: "Requirement list"
  import_name :: string

definition py_eq :: "StraponMetadata \<Rightarrow> StraponMetadata \<Rightarrow> bool" where
  "py_eq a b = (obj a = obj b)"

text \<open>\<^verbatim>\<open>Path.as_posix()\<close> of a relative path, \<^verbatim>\<open>Path.name\<close>, and \<^verbatim>\<open>str()\<close> of an
  absolute path.\<close>

definition path_str :: "path \<Rightarrow> string" where
  "path_str p = (if p = [] then ''/'' else concat (map (\<lambda>c. ''/'' @ c) p))"

definition as_posix :: "path \<Rightarrow> string" where
  "as_posix rel = (if rel = [] then ''.'' else join_with ''/'' rel)"

definition path_name :: "path \<Rightarrow> string" where
  "path_name p = (if p = [] then [] else last p)"

text \<open>\<^verbatim>\<open>list(map(f, xs))\<close> where \<open>f\<close> may raise: the first exception ends it.\<close>

fun map_raising :: "('a \<Rightarrow> exn + 'b) \<Rightarrow> 'a list \<Rightarrow> exn + 'b list" where
  "map_raising f [] = Inr []"
| "map_raising f (x # xs) =
     (case f x of
        Inl e \<Rightarrow> Inl e
      | Inr y \<Rightarrow> (case map_raising f xs of Inl e \<Rightarrow> Inl e | Inr ys \<Rightarrow> Inr (y # ys)))"

text \<open>\<^verbatim>\<open>StraponMetadata.__init__\<close>; \<open>new_obj\<close> is the identity of the object under
  construction, \<open>cwd\<close> the resolved working directory.\<close>

definition StraponMetadata_init ::
    "pylib \<Rightarrow> path \<Rightarrow> files \<Rightarrow> nat \<Rightarrow> path \<Rightarrow> exn + StraponMetadata" where
  "StraponMetadata_init lib cwd files new_obj package_dir =
     (case relative_to package_dir cwd of
        Inl e \<Rightarrow> Inl e
      | Inr rel \<Rightarrow>
     (case files (package_dir @ [''pyproject.toml'']) of
        None \<Rightarrow> Inl (FileNotFoundError ''Strapon project file not found'')
      | Some text \<Rightarrow>
     (case tomllib_loads lib text of
        Inl e \<Rightarrow> Inl e
      | Inr pyproject \<Rightarrow>
     (case (case pyproject of None \<Rightarrow> None | Some project \<Rightarrow> pj_name project) of
        None \<Rightarrow> Inl (ValueError ''Invalid pyproject.toml file. Missing project name.'')
      | Some the_name \<Rightarrow>
     (case (case pyproject of None \<Rightarrow> None | Some project \<Rightarrow> pj_id project) of
        None \<Rightarrow> Inl (ValueError ''Invalid pyproject.toml file. Missing project id.'')
      | Some the_id \<Rightarrow>
          if the_id \<noteq> importable_normalise lib the_id
          then Inl (ValueError ''Project ID must be importable.'')
          else if the_id \<noteq> path_name package_dir
          then Inl (ValueError ''Project ID must match package name.'')
          else
            (case map_raising (parse_requirement lib)
                    (case pyproject of
                       None \<Rightarrow> []
                     | Some project \<Rightarrow>
                         (case pj_dependencies project of None \<Rightarrow> [] | Some ds \<Rightarrow> ds)) of
               Inl e \<Rightarrow> Inl e
             | Inr reqs \<Rightarrow>
                 Inr \<lparr>obj = new_obj, display_name = the_name, id_str = the_id,
                      requirements = reqs,
                      import_name =
                        map (\<lambda>c. if c = CHR ''/'' then CHR ''.'' else c) (as_posix rel)\<rparr>))))))"

subsection \<open>Strapon\<close>

record Strapon =
  priv_cogs :: "Cog list"
  package_dir :: path
  metadata :: StraponMetadata
  storage_path :: path
  config :: "StraponConfig option"
  default_config_file :: "path option"

text \<open>The bot's \<^verbatim>\<open>data_dir\<close>, \<^verbatim>\<open>Path("data")\<close> below the working directory.\<close>

definition data_dir :: "path \<Rightarrow> path" where
  "data_dir cwd = cwd @ [''data'']"

text \<open>\<^verbatim>\<open>Strapon.__init__(bot, path, config)\<close>.\<close>

definition Strapon_init ::
    "pylib \<Rightarrow> path \<Rightarrow> path \<Rightarrow> StraponConfig option \<Rightarrow> world \<Rightarrow> (exn + Strapon) \<times> world" where
  "Strapon_init lib cwd path cfg w =
     (case StraponMetadata_init lib cwd (fs w) (next_obj w) path of
        Inl e \<Rightarrow> (Inl e, w)
      | Inr md \<Rightarrow>
     (case mkdir_parents (data_dir cwd @ [''storage'', id_str md])
             (w\<lparr>next_obj := Suc (next_obj w)\<rparr>) of
        Inl e \<Rightarrow> (Inl e, w\<lparr>next_obj := Suc (next_obj w)\<rparr>)
      | Inr w1 \<Rightarrow>
     (case cfg of
        None \<Rightarrow>
          (Inr \<lparr>priv_cogs = [], package_dir = path, metadata = md,
                storage_path = data_dir cwd @ [''storage'', id_str md],
                config = None, default_config_file = None\<rparr>, w1)
      | Some c \<Rightarrow>
          if \<not> is_file (fs w1) (path @ [''default_config.yml''])
          then (Inl (FileNotFoundError
                  ''A default config file is required if a config object is provided.''), w1)
          else
            (Inr \<lparr>priv_cogs = [], package_dir = path, metadata = md,
                  storage_path = data_dir cwd @ [''storage'', id_str md],
                  config = Some (c\<lparr>priv_config_path :=
                                     Some (data_dir cwd @ [''config'', id_str md @ ''.yml''])\<rparr>),
                  default_config_file = Some (path @ [''default_config.yml''])\<rparr>, w1))))"

definition register_cog :: "Cog \<Rightarrow> Strapon \<Rightarrow> Strapon" where
  "register_cog cog self = self\<lparr>priv_cogs := priv_cogs self @ [cog]\<rparr>"

subsection \<open>Strapon.install_requirements\<close>

text \<open>The closure \<^verbatim>\<open>is_unsatisfied\<close>: the loop over the snapshot of installed
  distributions, which compares names with \<^verbatim>\<open>!=\<close> on the strings.\<close>

fun is_unsatisfied_loop ::
    "pylib \<Rightarrow> Distribution list \<Rightarrow> Requirement \<Rightarrow> Distribution list \<Rightarrow> bool" where
  "is_unsatisfied_loop lib snapshot requirement [] = True"
| "is_unsatisfied_loop lib snapshot requirement (d # ds) =
     (if req_name requirement \<noteq> dist_name d
      then is_unsatisfied_loop lib snapshot requirement ds
      else if spec_contains lib (metadata_version lib snapshot (req_name requirement))
                (req_specifier requirement)
      then False
      else is_unsatisfied_loop lib snapshot requirement ds)"

definition is_unsatisfied :: "pylib \<Rightarrow> Distribution list \<Rightarrow> Requirement \<Rightarrow> bool" where
  "is_unsatisfied lib installed_distributions requirement =
     is_unsatisfied_loop lib installed_distributions requirement installed_distributions"

text \<open>\<^verbatim>\<open>StreamReader.readline\<close>: the bytes up to and including the next newline, the rest
  of the stream when there is none, nothing at the end of the stream.\<close>

fun readline :: "string \<Rightarrow> string" where
  "readline [] = []"
| "readline (c # cs) = (if c = CHR 0x0A then [c] else c # readline cs)"

text \<open>\<^verbatim>\<open>str.rstrip()\<close> on the ASCII white space.\<close>

definition is_space :: "char \<Rightarrow> bool" where
  "is_space c = ((of_char c :: nat) \<in> {9, 10, 11, 12, 13, 28, 29, 30, 31, 32})"

definition rstrip :: "string \<Rightarrow> string" where
  "rstrip s = rev (dropWhile is_space (rev s))"

text \<open>
  The closure \<^verbatim>\<open>log_stream\<close>, given what is still to be read from the stream: the lines
  it passes to \<^verbatim>\<open>logger_func\<close>, in order. The loop ends at the first line that is empty
  after \<^verbatim>\<open>rstrip()\<close>.
\<close>

function log_stream :: "string \<Rightarrow> string list" where
  "log_stream stream =
     (if rstrip (readline stream) = [] then []
      else rstrip (readline stream) # log_stream (drop (length (readline stream)) stream))"
  by pat_completeness auto
termination
proof (relation "measure length")
  show "wf (measure length)" by simp
next
  fix stream :: string
  assume "rstrip (readline stream) \<noteq> []"
  then have "readline stream \<noteq> []" by (auto simp: rstrip_def)
  then have "stream \<noteq> []" and "0 < length (readline stream)" by (cases stream; simp)+
  then show "(drop (length (readline stream)) stream, stream) \<in> measure length" by simp
qed

declare log_stream.simps [simp del]

definition install_cmd :: "pylib \<Rightarrow> Requirement list \<Rightarrow> string list" where
  "install_cmd lib missing_requirements =
     (if which_uv lib
      then [''uv'', ''pip'', ''install'', ''--python'', sys_executable lib]
             @ map req_str missing_requirements
      else [sys_executable lib, ''-m'', ''pip'', ''install'']
             @ map req_str missing_requirements)"

text \<open>
  \<^verbatim>\<open>Strapon.install_requirements\<close>. The two \<^verbatim>\<open>log_stream\<close> tasks run under
  \<^verbatim>\<open>asyncio.gather\<close>; the model records the standard-output lines before the
  standard-error lines. The installed distributions are those the process leaves behind.
\<close>

definition install_requirements :: "pylib \<Rightarrow> Strapon \<Rightarrow> world \<Rightarrow> (exn + bool) \<times> world" where
  "install_requirements lib self w =
     (let installed_distributions = installed w;
          missing_requirements =
            filter (is_unsatisfied lib installed_distributions) (requirements (metadata self))
      in if missing_requirements = [] then (Inr False, w)
         else
           let w1 = log_to INFO (''Installing missing requirements: ''
                      @ join_with '', '' (map (\<lambda>req. CHR 0x22 # req_name req) missing_requirements)) w;
               w2 = log_to DEBUG (''Using '' @ (if which_uv lib then ''uv'' else ''pip'')
                      @ '' to install requirements'') w1;
               cmd = install_cmd lib missing_requirements;
               process = create_subprocess_exec lib cmd (installed w2);
               w3 = w2\<lparr>spawned := spawned w2 @ [cmd]\<rparr>;
               w4 = fold (log_to INFO) (log_stream (stdout process)) w3;
               w5 = fold (log_to ERROR) (log_stream (stderr process)) w4;
               w6 = w5\<lparr>installed := installed_after process\<rparr>
           in if returncode process \<noteq> 0
              then (Inl (CalledProcessError (returncode process) cmd),
                    log_to ERROR ''Failed to install requirements'' w6)
              else (Inr True, w6))"

subsection \<open>Strapon.load\<close>

text \<open>\<^verbatim>\<open>commands.Bot.add_cog\<close> of discord.py: a cog whose name is already registered is
  refused with ClientException, otherwise it is registered.\<close>

definition add_cog :: "Cog \<Rightarrow> world \<Rightarrow> exn + world" where
  "add_cog cog w =
     (if \<exists>c \<in> set (cogs w). cog_name c = cog_name cog
      then Inl (ClientException ''Cog already loaded'')
      else Inr (w\<lparr>cogs := cogs w @ [cog]\<rparr>))"

text \<open>The loop \<^verbatim>\<open>for cog in self._cogs: await self.bot.add_cog(cog)\<close>.\<close>

fun add_cogs :: "Cog list \<Rightarrow> world \<Rightarrow> (exn + unit) \<times> world" where
  "add_cogs [] w = (Inr (), w)"
| "add_cogs (cog # rest) w =
     (case add_cog cog w of
        Inl e \<Rightarrow> (Inl e, w)
      | Inr w1 \<Rightarrow> add_cogs rest w1)"

text \<open>The block of \<^verbatim>\<open>Strapon.load\<close> under \<^verbatim>\<open>if self.config is not None\<close>: seed the
  config file from the default when it is absent, then load it; a failing load is
  re-raised as ValueError.\<close>

definition load_config :: "pylib \<Rightarrow> path \<Rightarrow> Strapon \<Rightarrow> world \<Rightarrow> (exn + Strapon) \<times> world" where
  "load_config lib cwd self w =
     (case config self of
        None \<Rightarrow> (Inr self, w)
      | Some c \<Rightarrow>
     (case priv_config_path c of
        None \<Rightarrow> (Inl (AssertionError ''Invalid config object. How did we get here?''), w)
      | Some config_path \<Rightarrow>
     (case default_config_file self of
        None \<Rightarrow> (Inl (AssertionError ''Strapon has config but no default config file.''), w)
      | Some dflt \<Rightarrow>
     (case (if \<not> is_file (fs w) config_path
            then (case mkdir_parents (butlast config_path) w of
                    Inl e \<Rightarrow> Inl e
                  | Inr w1 \<Rightarrow> copy dflt config_path w1)
            else Inr w) of
        Inl e \<Rightarrow> (Inl e, w)
      | Inr w2 \<Rightarrow>
     (case load (yaml_load lib) cwd (fs w2) c config_path of
        (Inl e, c') \<Rightarrow>
          (Inl (ValueError (''Failed to load config for strapon '' @ id_str (metadata self))), w2)
      | (Inr d, c') \<Rightarrow> (Inr (self\<lparr>config := Some c'\<rparr>), w2))))))"

definition Strapon_load :: "pylib \<Rightarrow> path \<Rightarrow> Strapon \<Rightarrow> world \<Rightarrow> (exn + unit) \<times> world" where
  "Strapon_load lib cwd self w =
     (case load_config lib cwd self w of
        (Inl e, w1) \<Rightarrow> (Inl e, w1)
      | (Inr self1, w1) \<Rightarrow>
     (case install_requirements lib self1 w1 of
        (Inl e, w2) \<Rightarrow> (Inl e, w2)
      | (Inr installed_new, w2) \<Rightarrow>
          if installed_new
          then (Inl (RequirementInstallSuccessError
                  ''New requirements were installed. Strapon reload required.''), w2)
          else add_cogs (priv_cogs self1) w2))"

section \<open>bot.py: HarnessBot\<close>

subsection \<open>What discord.py does on the bot's tables\<close>

text \<open>
  \<^verbatim>\<open>_is_submodule(parent, child)\<close>, \<^verbatim>\<open>_remove_module_references(name)\<close> and
  \<^verbatim>\<open>_call_module_finalizers(lib, key)\<close> are inherited from \<^verbatim>\<open>commands.Bot\<close>. The first
  removal takes out every cog whose class was defined in the module or below it; the
  second calls the module's \<^verbatim>\<open>teardown\<close> when there is one, swallowing what it raises,
  and then removes the key from the extension table and \<^verbatim>\<open>sys.modules\<close>, together with
  every submodule of the module. A \<^verbatim>\<open>teardown\<close> is taken to leave the tables alone.
\<close>

definition is_submodule :: "string \<Rightarrow> string \<Rightarrow> bool" where
  "is_submodule parent child = (parent = child \<or> prefix (parent @ ''.'') child)"

definition remove_module_references :: "string \<Rightarrow> world \<Rightarrow> world" where
  "remove_module_references name w =
     w\<lparr>cogs := filter (\<lambda>c. \<not> is_submodule name (cog_module c)) (cogs w)\<rparr>"

definition call_module_finalizers :: "string \<Rightarrow> string \<Rightarrow> world \<Rightarrow> world" where
  "call_module_finalizers name key w =
     w\<lparr>extensions := extensions w - {key},
       sys_modules := Set.filter (\<lambda>m. \<not> is_submodule name m) (sys_modules w - {key})\<rparr>"

text \<open>\<^verbatim>\<open>del sys.modules[key]\<close> raises KeyError when the key is not bound.\<close>

definition del_sys_modules :: "string \<Rightarrow> world \<Rightarrow> exn + world" where
  "del_sys_modules key w =
     (if key \<in> sys_modules w then Inr (w\<lparr>sys_modules := sys_modules w - {key}\<rparr>)
      else Inl (KeyError key))"

subsection \<open>_load_from_module_spec\<close>

text \<open>The body of the second \<^verbatim>\<open>try\<close>: await \<^verbatim>\<open>setup_func(self)\<close>, check that it
  returned a Strapon, await its \<^verbatim>\<open>load()\<close>.\<close>

definition run_setup :: "pylib \<Rightarrow> path \<Rightarrow> string \<Rightarrow> setup_body \<Rightarrow> world \<Rightarrow> (exn + Strapon) \<times> world" where
  "run_setup lib cwd key body w =
     (case body of
        SetupRaises e \<Rightarrow> (Inl e, w)
      | SetupReturns NotAStrapon \<Rightarrow>
          (Inl (ValueError (''Setup function for '' @ key @ '' did not return a Strapon.'')), w)
      | SetupReturns (MakeStrapon path cfg cgs) \<Rightarrow>
          (case Strapon_init lib cwd path (map_option StraponConfig_init cfg) w of
             (Inl e, w1) \<Rightarrow> (Inl e, w1)
           | (Inr strapon, w1) \<Rightarrow>
               (case Strapon_load lib cwd (fold register_cog cgs strapon) w1 of
                  (Inl e, w2) \<Rightarrow> (Inl e, w2)
                | (Inr u, w2) \<Rightarrow> (Inr (fold register_cog cgs strapon), w2))))"

text \<open>An exception handler that deletes the module entry and then raises \<open>e\<close>.\<close>

definition del_and_raise :: "string \<Rightarrow> exn \<Rightarrow> world \<Rightarrow> (exn + unit) \<times> world" where
  "del_and_raise key e w =
     (case del_sys_modules key w of
        Inl ke \<Rightarrow> (Inl ke, w)
      | Inr w1 \<Rightarrow> (Inl e, w1))"

definition is_RequirementInstallSuccessError :: "exn \<Rightarrow> bool" where
  "is_RequirementInstallSuccessError e =
     (case e of RequirementInstallSuccessError m \<Rightarrow> True | _ \<Rightarrow> False)"

text \<open>
  \<^verbatim>\<open>_load_from_module_spec\<close>: bind the module under the key, execute it (which binds what
  it imports), look up \<^verbatim>\<open>setup\<close>, run it and the Strapon's \<^verbatim>\<open>load()\<close>. The three
  early handlers delete only \<^verbatim>\<open>sys.modules[key]\<close>; the last one also removes the module's
  references and calls its finalizers.
\<close>

definition load_from_module_spec ::
    "pylib \<Rightarrow> path \<Rightarrow> ModuleSpec \<Rightarrow> string \<Rightarrow> world \<Rightarrow> (exn + unit) \<times> world" where
  "load_from_module_spec lib cwd spec key w =
     (let w0 = w\<lparr>sys_modules := insert key (sys_modules w) \<union> set (exec_imports spec)\<rparr>
      in case exec_module spec of
           ExecRaises error \<Rightarrow> del_and_raise key (ExtensionFailed key error) w0
         | ExecOk NoSetup \<Rightarrow> del_and_raise key (NoEntryPointError key) w0
         | ExecOk NotCoroutine \<Rightarrow>
             del_and_raise key
               (ExtensionFailed key (ValueError ''setup() must be a coroutine'')) w0
         | ExecOk (Coroutine body) \<Rightarrow>
             (case run_setup lib cwd key body w0 of
                (Inl error, w1) \<Rightarrow>
                  (case del_sys_modules key w1 of
                     Inl ke \<Rightarrow> (Inl ke, w1)
                   | Inr w2 \<Rightarrow>
                       (if is_RequirementInstallSuccessError error then Inl error
                        else Inl (ExtensionFailed key error),
                        call_module_finalizers (spec_name spec) key
                          (remove_module_references (spec_name spec) w2)))
              | (Inr ret_value, w1) \<Rightarrow>
                  (Inr (),
                   log_to INFO (''Loaded strapon: '' @ id_str (metadata ret_value))
                     (w1\<lparr>extensions := insert key (extensions w1)\<rparr>))))"

text \<open>
  What the dependency check of one load attempt reports: the requirements
  \<^verbatim>\<open>install_requirements\<close> finds missing, with the state at that moment. None when the
  attempt ends before \<^verbatim>\<open>Strapon.load\<close> reaches \<^verbatim>\<open>install_requirements\<close>.
\<close>

definition dependency_check ::
    "pylib \<Rightarrow> path \<Rightarrow> ModuleSpec \<Rightarrow> string \<Rightarrow> world \<Rightarrow> (Requirement list \<times> world) option" where
  "dependency_check lib cwd spec key w =
     (case exec_module spec of
        ExecOk (Coroutine (SetupReturns (MakeStrapon path cfg cgs))) \<Rightarrow>
          (case Strapon_init lib cwd path (map_option StraponConfig_init cfg)
                  (w\<lparr>sys_modules := insert key (sys_modules w) \<union> set (exec_imports spec)\<rparr>) of
             (Inr strapon, w1) \<Rightarrow>
               (case load_config lib cwd (fold register_cog cgs strapon) w1 of
                  (Inr self1, w2) \<Rightarrow>
                    Some (filter (is_unsatisfied lib (installed w2)) (requirements (metadata self1)),
                          w2)
                | (Inl e, w2) \<Rightarrow> None)
           | (Inl e, w1) \<Rightarrow> None)
      | _ \<Rightarrow> None)"

subsection \<open>load_extension\<close>

text \<open>\<^verbatim>\<open>_resolve_name(name, None)\<close> leaves an absolute module name as it is.\<close>

definition load_extension :: "pylib \<Rightarrow> path \<Rightarrow> string \<Rightarrow> world \<Rightarrow> (exn + unit) \<times> world" where
  "load_extension lib cwd name w =
     (if name \<in> extensions w then (Inl (ExtensionAlreadyLoaded name), w)
      else
        (case find_spec lib name of
           None \<Rightarrow> (Inl (ExtensionNotFound name), w)
         | Some spec \<Rightarrow>
             (case load_from_module_spec lib cwd spec name w of
                (Inl error, w1) \<Rightarrow>
                  if is_RequirementInstallSuccessError error
                  then load_from_module_spec lib cwd spec name
                         (log_to DEBUG (''Requirements installed for '' @ name @ ''. Re-importing.'') w1)
                  else (Inl error, w1)
              | (Inr u, w1) \<Rightarrow> (Inr u, w1))))"

subsection \<open>load_all_strapons: discovery\<close>

text \<open>\<^verbatim>\<open>potential_strapons.add(metadata)\<close> on a Python set, whose membership test is
  \<^verbatim>\<open>==\<close> on the elements.\<close>

definition set_add :: "StraponMetadata \<Rightarrow> StraponMetadata list \<Rightarrow> StraponMetadata list" where
  "set_add m ms = (if \<exists>x \<in> set ms. py_eq x m then ms else ms @ [m])"

text \<open>
  The loop over \<^verbatim>\<open>strapons_dir.iterdir()\<close>: \<open>entries\<close> are the names it yields, in its
  order, \<open>enabled\<close> is \<^verbatim>\<open>bot_config.data["enabled_strapons"]\<close>, \<open>potential\<close> the set built
  so far. Nothing catches what \<^verbatim>\<open>StraponMetadata(subdir_path)\<close> raises.
\<close>

fun potential_strapons_loop ::
    "pylib \<Rightarrow> path \<Rightarrow> string list \<Rightarrow> path \<Rightarrow> string list \<Rightarrow> StraponMetadata list \<Rightarrow> world
      \<Rightarrow> (exn + StraponMetadata list) \<times> world" where
  "potential_strapons_loop lib cwd enabled strapons_dir [] potential w = (Inr potential, w)"
| "potential_strapons_loop lib cwd enabled strapons_dir (entry # rest) potential w =
     (if \<not> is_file (fs w) (strapons_dir @ [entry, ''__init__.py''])
         \<or> \<not> is_file (fs w) (strapons_dir @ [entry, ''pyproject.toml''])
      then potential_strapons_loop lib cwd enabled strapons_dir rest potential
             (log_to WARNING
                (''Skipping non-strapon directory: '' @ path_str (strapons_dir @ [entry])) w)
      else
        (case StraponMetadata_init lib cwd (fs w) (next_obj w) (strapons_dir @ [entry]) of
           Inl e \<Rightarrow> (Inl e, w)
         | Inr md \<Rightarrow>
             potential_strapons_loop lib cwd enabled strapons_dir rest
               (if id_str md \<in> set enabled then set_add md potential else potential)
               (w\<lparr>next_obj := Suc (next_obj w)\<rparr>)))"

text \<open>The first part of \<^verbatim>\<open>load_all_strapons\<close>, up to the set of candidates to load.
  \<open>enabled\<close> is None when the bot config is not loaded.\<close>

definition potential_strapons ::
    "pylib \<Rightarrow> path \<Rightarrow> string list option \<Rightarrow> string list \<Rightarrow> world
      \<Rightarrow> (exn + StraponMetadata list) \<times> world" where
  "potential_strapons lib cwd enabled entries w =
     (if data_dir cwd @ [''strapons''] \<notin> dirs w
      then (Inl (FileNotFoundError ''Strapon directory not found''), w)
      else
        (case enabled of
           None \<Rightarrow> (Inl (AssertionError ''Bot config not loaded?''), w)
         | Some en \<Rightarrow>
             potential_strapons_loop lib cwd en (data_dir cwd @ [''strapons'']) entries [] w))"

subsection \<open>setup_bot_logging: archiving latest.log\<close>







section \<open>Example inputs\<close>

text \<open>
  A small installation used to run the model: the working directory \<^verbatim>\<open>/srv\<close>, one unit
  \<^verbatim>\<open>demo\<close> that depends on \<^verbatim>\<open>pyyaml\<close>, and an installer that installs the distribution
  under its canonical name \<^verbatim>\<open>PyYAML\<close>. The installer exits with 0 when nothing was
  installed before and with 1 otherwise.
\<close>

definition demo_dir :: path where
  "demo_dir = [''srv'', ''data'', ''strapons'', ''demo'']"

definition demo_project :: project_table where
  "demo_project = \<lparr>pj_name = Some ''Demo'', pj_id = Some ''demo'',
                    pj_dependencies = Some [''pyyaml'']\<rparr>"

definition demo_spec :: ModuleSpec where
  "demo_spec = \<lparr>spec_name = ''data.strapons.demo'',
     exec_imports = [''data.strapons.demo.cogs''],
     exec_module = ExecOk (Coroutine (SetupReturns (MakeStrapon demo_dir None
       [\<lparr>cog_name = ''Greeter'', cog_module = ''data.strapons.demo.cogs''\<rparr>])))\<rparr>"

text \<open>The example runtime lowercases the ASCII letters, as \<^verbatim>\<open>str.lower\<close> does on ASCII
  text.\<close>

definition lower_char :: "char \<Rightarrow> char" where
  "lower_char c =
     (if 65 \<le> (of_char c :: nat) \<and> (of_char c :: nat) \<le> 90
      then char_of ((of_char c :: nat) + 32) else c)"

definition demo_lib :: pylib where
  "demo_lib = \<lparr>
     tomllib_loads = (\<lambda>text.
       if text = ''demo'' then Inr (Some demo_project)
       else if text = ''extra'' then
         Inr (Some \<lparr>pj_name = Some ''Extra'', pj_id = Some ''extra'', pj_dependencies = None\<rparr>)
       else if text = ''Bad-Id'' then
         Inr (Some \<lparr>pj_name = Some ''Bad'', pj_id = Some ''Bad-Id'', pj_dependencies = None\<rparr>)
       else Inl (TOMLDecodeError ''Invalid statement'')),
     parse_requirement = (\<lambda>s. Inr \<lparr>req_name = s, req_specifier = ''>=6'', req_str = s\<rparr>),
     metadata_version = (\<lambda>ds n. case find (\<lambda>d. dist_name d = n) ds of
                                   None \<Rightarrow> [] | Some d \<Rightarrow> dist_version d),
     spec_contains = (\<lambda>v spec. v = ''6.0''),
     str_lower = map lower_char,
     yaml_load = (\<lambda>text sch label. Inr (YMapping [])),
     strptime_ok = (\<lambda>s. s = ''2024-05-01''),
     find_spec = (\<lambda>n. if n = ''data.strapons.demo'' then Some demo_spec else None),
     which_uv = False,
     sys_executable = ''python3'',
     create_subprocess_exec = (\<lambda>cmd ds.
       \<lparr>stdout = ''Collecting pyyaml'' @ [CHR 0x0A], stderr = [],
        returncode = (if ds = [] then 0 else 1),
        installed_after = ds @ [\<lparr>dist_name = ''PyYAML'', dist_version = ''6.0''\<rparr>]\<rparr>)\<rparr>"

definition demo_metadata :: StraponMetadata where
  "demo_metadata = \<lparr>obj = 0, display_name = ''Demo'', id_str = ''demo'',
     requirements = [\<lparr>req_name = ''pyyaml'', req_specifier = ''>=6'', req_str = ''pyyaml''\<rparr>],
     import_name = ''data.strapons.demo''\<rparr>"

definition demo_strapon :: Strapon where
  "demo_strapon = \<lparr>priv_cogs = [], package_dir = demo_dir, metadata = demo_metadata,
     storage_path = [''srv'', ''data'', ''storage'', ''demo''],
     config = None, default_config_file = None\<rparr>"

definition demo_world :: world where
  "demo_world = \<lparr>
     fs = [demo_dir @ [''__init__.py''] \<mapsto> [], demo_dir @ [''pyproject.toml''] \<mapsto> ''demo''],
     dirs = {[''srv'', ''data'', ''strapons'']},
     installed = [], sys_modules = {}, extensions = {}, cogs = [], logged = [],
     spawned = [], next_obj = 0\<rparr>"


text \<open>The strapons directory with a second unit whose manifest declares the id
  \<^verbatim>\<open>Bad-Id\<close>.\<close>

definition two_units_world :: world where
  "two_units_world = demo_world\<lparr>fs :=
     [demo_dir @ [''__init__.py''] \<mapsto> [], demo_dir @ [''pyproject.toml''] \<mapsto> ''demo'',
      [''srv'', ''data'', ''strapons'', ''Bad-Id'', ''__init__.py''] \<mapsto> [],
      [''srv'', ''data'', ''strapons'', ''Bad-Id'', ''pyproject.toml''] \<mapsto> ''Bad-Id'']\<rparr>"

text \<open>A unit that registers two cogs of the same name, and a state in which its
  requirement is installed under the name the manifest uses.\<close>

definition clash_spec :: ModuleSpec where
  "clash_spec = \<lparr>spec_name = ''data.strapons.demo'',
     exec_imports = [''data.strapons.demo.cogs'', ''data.strapons.demo.more''],
     exec_module = ExecOk (Coroutine (SetupReturns (MakeStrapon demo_dir None
       [\<lparr>cog_name = ''Greeter'', cog_module = ''data.strapons.demo.cogs''\<rparr>,
        \<lparr>cog_name = ''Greeter'', cog_module = ''data.strapons.demo.more''\<rparr>])))\<rparr>"

definition ready_world :: world where
  "ready_world = demo_world\<lparr>installed := [\<lparr>dist_name = ''pyyaml'', dist_version = ''6.0''\<rparr>]\<rparr>"

text \<open>A unit whose first cog is an instance of a class defined outside the unit, in
  \<^verbatim>\<open>harness.components.strapon\<close>, and whose second cog has the same name.\<close>

definition foreign_spec :: ModuleSpec where
  "foreign_spec = \<lparr>spec_name = ''data.strapons.demo'',
     exec_imports = [''data.strapons.demo.cogs''],
     exec_module = ExecOk (Coroutine (SetupReturns (MakeStrapon demo_dir None
       [\<lparr>cog_name = ''Greeter'', cog_module = ''harness.components.strapon''\<rparr>,
        \<lparr>cog_name = ''Greeter'', cog_module = ''data.strapons.demo.cogs''\<rparr>])))\<rparr>"

text \<open>A second valid unit \<^verbatim>\<open>extra\<close> beside \<^verbatim>\<open>demo\<close>.\<close>

definition extra_metadata :: StraponMetadata where
  "extra_metadata = \<lparr>obj = 1, display_name = ''Extra'', id_str = ''extra'',
     requirements = [], import_name = ''data.strapons.extra''\<rparr>"

definition pair_world :: world where
  "pair_world = demo_world\<lparr>fs :=
     [demo_dir @ [''__init__.py''] \<mapsto> [], demo_dir @ [''pyproject.toml''] \<mapsto> ''demo'',
      [''srv'', ''data'', ''strapons'', ''extra'', ''__init__.py''] \<mapsto> [],
      [''srv'', ''data'', ''strapons'', ''extra'', ''pyproject.toml''] \<mapsto> ''extra'']\<rparr>"

text \<open>The example runtime with an installer that always exits with 0.\<close>

definition always_ok_lib :: pylib where
  "always_ok_lib = demo_lib\<lparr>create_subprocess_exec := (\<lambda>cmd ds.
       \<lparr>stdout = ''Requirement already satisfied: pyyaml'' @ [CHR 0x0A], stderr = [],
        returncode = 0,
        installed_after = ds @ [\<lparr>dist_name = ''PyYAML'', dist_version = ''6.0''\<rparr>]\<rparr>)\<rparr>"

text \<open>The requirement the unit \<^verbatim>\<open>demo\<close> declares.\<close>

definition pyyaml_req :: Requirement where
  "pyyaml_req = \<lparr>req_name = ''pyyaml'', req_specifier = ''>=6'', req_str = ''pyyaml''\<rparr>"

section \<open>Verified properties\<close>

subsection \<open>StraponConfig.load leaves the document alone when it raises\<close>

text \<open>
  C9. Whenever \<open>load\<close> raises (the file cannot be opened, the label cannot be computed,
  the schema is violated, or the parsed document is not a mapping), the config object is
  the one it was before the call, so the \<open>data\<close> accessor returns exactly what it
  returned before.
\<close>

theorem load_atomic_on_error:
  "fst (load yl cwd files c config_path) = Inl e \<Longrightarrow>
     snd (load yl cwd files c config_path) = c \<and>
     data (snd (load yl cwd files c config_path)) = data c"
  by (auto simp: load_def split: option.splits sum.splits yaml.splits)

theorem load_atomic_on_error_witness:
  "fst (load (\<lambda>t s l. Inr (YScalar t)) [''srv''] [[''srv'', ''c.yml''] \<mapsto> ''x'']
          \<lparr>schema = ''s'', priv_data = Some (YMapping [(''k'', YScalar ''v'')]),
           priv_config_path = None\<rparr> [''srv'', ''c.yml''])
     = Inl (ValueError ''Config data is not a dict.'') \<and>
   data (snd (load (\<lambda>t s l. Inr (YScalar t)) [''srv''] [[''srv'', ''c.yml''] \<mapsto> ''x'']
          \<lparr>schema = ''s'', priv_data = Some (YMapping [(''k'', YScalar ''v'')]),
           priv_config_path = None\<rparr> [''srv'', ''c.yml'']))
     = Inr (Some [(''k'', YScalar ''v'')])"
proof -
  have h: "fst (load (\<lambda>t s l. Inr (YScalar t)) [''srv''] [[''srv'', ''c.yml''] \<mapsto> ''x'']
          \<lparr>schema = ''s'', priv_data = Some (YMapping [(''k'', YScalar ''v'')]),
           priv_config_path = None\<rparr> [''srv'', ''c.yml''])
     = Inl (ValueError ''Config data is not a dict.'')"
    by (simp add: load_def relative_to_def)
  from load_atomic_on_error [OF h] h show ?thesis
    by (simp add: data_def)
qed

subsection \<open>The dependency check\<close>

lemma is_unsatisfied_loop_iff:
  "is_unsatisfied_loop lib snapshot r ds \<longleftrightarrow>
     \<not> ((\<exists>d \<in> set ds. dist_name d = req_name r) \<and>
        spec_contains lib (metadata_version lib snapshot (req_name r)) (req_specifier r))"
  by (induction ds) auto

lemma is_unsatisfied_iff:
  "is_unsatisfied lib ds r \<longleftrightarrow>
     \<not> ((\<exists>d \<in> set ds. dist_name d = req_name r) \<and>
        spec_contains lib (metadata_version lib ds (req_name r)) (req_specifier r))"
  by (simp add: is_unsatisfied_def is_unsatisfied_loop_iff)

lemma spawned_log_to [simp]: "spawned (log_to lv msg w) = spawned w"
  by (simp add: log_to_def)

lemma spawned_fold_log_to [simp]: "spawned (fold (log_to lv) msgs w) = spawned w"
  by (induction msgs arbitrary: w) simp_all

lemma install_requirements_spawned:
  "filter (is_unsatisfied lib (installed w)) (requirements (metadata self)) \<noteq> [] \<Longrightarrow>
   spawned (snd (install_requirements lib self w)) =
     spawned w @ [install_cmd lib
       (filter (is_unsatisfied lib (installed w)) (requirements (metadata self)))]"
  by (simp add: install_requirements_def Let_def)

text \<open>
  C4. When every declared requirement has an installed distribution of the same name and
  the installed version lies in its specifier, \<open>install_requirements\<close> returns False and
  leaves the state as it was: no subprocess is started.
\<close>

theorem install_requirements_fast_path:
  assumes "\<forall>r \<in> set (requirements (metadata self)).
             (\<exists>d \<in> set (installed w). dist_name d = req_name r) \<and>
             spec_contains lib (metadata_version lib (installed w) (req_name r)) (req_specifier r)"
  shows "install_requirements lib self w = (Inr False, w) \<and>
         spawned (snd (install_requirements lib self w)) = spawned w"
proof -
  have "filter (is_unsatisfied lib (installed w)) (requirements (metadata self)) = []"
    using assms by (simp add: filter_empty_conv is_unsatisfied_iff)
  then show ?thesis by (simp add: install_requirements_def)
qed

theorem install_requirements_fast_path_witness:
  "install_requirements demo_lib demo_strapon
      (demo_world\<lparr>installed := [\<lparr>dist_name = ''pyyaml'', dist_version = ''6.0''\<rparr>]\<rparr>)
     = (Inr False, demo_world\<lparr>installed := [\<lparr>dist_name = ''pyyaml'', dist_version = ''6.0''\<rparr>]\<rparr>)
   \<and> spawned (snd (install_requirements demo_lib demo_strapon
        (demo_world\<lparr>installed := [\<lparr>dist_name = ''pyyaml'', dist_version = ''6.0''\<rparr>]\<rparr>))) = []"
proof -
  let ?w = "demo_world\<lparr>installed := [\<lparr>dist_name = ''pyyaml'', dist_version = ''6.0''\<rparr>]\<rparr>"
  have h: "\<forall>r \<in> set (requirements (metadata demo_strapon)).
             (\<exists>d \<in> set (installed ?w). dist_name d = req_name r) \<and>
             spec_contains demo_lib (metadata_version demo_lib (installed ?w) (req_name r))
               (req_specifier r)"
    by (simp add: demo_strapon_def demo_metadata_def demo_lib_def)
  have s: "spawned ?w = []" by (simp add: demo_world_def)
  from install_requirements_fast_path [OF h] s show ?thesis by simp
qed

text \<open>
  C10. A requirement counts as satisfied exactly when some installed distribution has the
  same name, compared as strings with no case folding or normalisation, and the installed
  version is in the specifier. A requirement whose name no installed distribution spells
  the same way is missing, and its text is an argument of the installer command.
\<close>

theorem satisfied_only_by_exact_name:
  "(\<not> is_unsatisfied lib ds r \<longleftrightarrow>
      (\<exists>d \<in> set ds. dist_name d = req_name r) \<and>
      spec_contains lib (metadata_version lib ds (req_name r)) (req_specifier r)) \<and>
   (r \<in> set (requirements (metadata self)) \<and>
    (\<forall>d \<in> set (installed w). dist_name d \<noteq> req_name r) \<longrightarrow>
      (\<exists>cmd. spawned (snd (install_requirements lib self w)) = spawned w @ [cmd] \<and>
             req_str r \<in> set cmd))"
proof (intro conjI impI)
  show "\<not> is_unsatisfied lib ds r \<longleftrightarrow>
      (\<exists>d \<in> set ds. dist_name d = req_name r) \<and>
      spec_contains lib (metadata_version lib ds (req_name r)) (req_specifier r)"
    by (simp add: is_unsatisfied_iff)
next
  assume a: "r \<in> set (requirements (metadata self)) \<and>
    (\<forall>d \<in> set (installed w). dist_name d \<noteq> req_name r)"
  let ?missing = "filter (is_unsatisfied lib (installed w)) (requirements (metadata self))"
  from a have u: "is_unsatisfied lib (installed w) r" by (simp add: is_unsatisfied_iff)
  with a have m: "r \<in> set ?missing" by simp
  then have ne: "?missing \<noteq> []" by (metis empty_iff list.set(1))
  from m have "req_str r \<in> set (install_cmd lib ?missing)"
    by (auto simp: install_cmd_def)
  with install_requirements_spawned [OF ne]
  show "\<exists>cmd. spawned (snd (install_requirements lib self w)) = spawned w @ [cmd] \<and>
             req_str r \<in> set cmd" by blast
qed

text \<open>The witness: \<^verbatim>\<open>pyyaml\<close> is required, the installed distribution is named
  \<^verbatim>\<open>PyYAML\<close> at a version inside the specifier; the requirement is unsatisfied and is
  handed to the installer.\<close>

theorem satisfied_only_by_exact_name_witness:
  "is_unsatisfied demo_lib [\<lparr>dist_name = ''PyYAML'', dist_version = ''6.0''\<rparr>]
      \<lparr>req_name = ''pyyaml'', req_specifier = ''>=6'', req_str = ''pyyaml''\<rparr> \<and>
   (\<exists>cmd. spawned (snd (install_requirements demo_lib demo_strapon
        (demo_world\<lparr>installed := [\<lparr>dist_name = ''PyYAML'', dist_version = ''6.0''\<rparr>]\<rparr>))) = [cmd]
      \<and> ''pyyaml'' \<in> set cmd)"
proof -
  let ?w = "demo_world\<lparr>installed := [\<lparr>dist_name = ''PyYAML'', dist_version = ''6.0''\<rparr>]\<rparr>"
  let ?r = "\<lparr>req_name = ''pyyaml'', req_specifier = ''>=6'', req_str = ''pyyaml''\<rparr>"
  have h: "?r \<in> set (requirements (metadata demo_strapon)) \<and>
    (\<forall>d \<in> set (installed ?w). dist_name d \<noteq> req_name ?r)"
    by (simp add: demo_strapon_def demo_metadata_def)
  have s: "spawned ?w = []" by (simp add: demo_world_def)
  from satisfied_only_by_exact_name
         [of demo_lib "[\<lparr>dist_name = ''PyYAML'', dist_version = ''6.0''\<rparr>]" ?r demo_strapon ?w]
       h s
  show ?thesis by simp
qed

subsection \<open>Draining the installer's pipes\<close>

text \<open>
  C8, at a failing input. The installer writes three lines to a pipe, the second one
  empty. \<open>log_stream\<close> hands the first line to the logger and stops at the empty line:
  the third line is never read, so the stream is not drained to its end.
\<close>

theorem log_stream_stops_at_blank_line:
  "log_stream (''Collecting foo'' @ [CHR 0x0A, CHR 0x0A] @ ''Installed foo'' @ [CHR 0x0A])
     = [''Collecting foo'']"
  by (simp add: log_stream.simps rstrip_def is_space_def)

subsection \<open>Manifest ids\<close>

lemma collapse_runs_re_sub:
  "collapse_runs True cs = re_sub_runs (dropWhile is_sep cs) \<and>
   collapse_runs False cs = re_sub_runs cs"
  by (induction cs) auto

lemma collapse_runs_idem:
  "collapse_runs b (collapse_runs b cs) = collapse_runs b cs \<and>
   collapse_runs False (collapse_runs True cs) = collapse_runs True cs"
proof (induction cs arbitrary: b)
  case Nil
  show ?case by simp
next
  case (Cons c cs)
  have sep: "is_sep (CHR ''_'')" by (simp add: is_sep_def)
  show ?case
  proof (cases "is_sep c")
    case True
    with Cons sep show ?thesis by (cases b) simp_all
  next
    case False
    with Cons show ?thesis by simp
  qed
qed

lemma importable_normalise_refines:
  "importable_normalise lib name = spec_normalise lib name"
  by (simp add: importable_normalise_def spec_normalise_def collapse_runs_re_sub)

lemma re_sub_runs_fixed: "re_sub_runs (re_sub_runs name) = re_sub_runs name"
  using collapse_runs_idem [of False name] by (simp add: collapse_runs_re_sub)

lemma StraponMetadata_init_Inr:
  "StraponMetadata_init lib cwd files n pdir = Inr md \<Longrightarrow>
     obj md = n \<and> id_str md = importable_normalise lib (id_str md) \<and>
     id_str md = path_name pdir"
  by (auto simp: StraponMetadata_init_def split: sum.splits option.splits if_splits)

text \<open>
  C5. \<open>importable_normalise\<close> is the normalisation the specification describes: every
  run of \<^verbatim>\<open>-\<close>, \<^verbatim>\<open>_\<close>, \<^verbatim>\<open>.\<close> is collapsed into one \<^verbatim>\<open>_\<close>, after which no run is left to
  collapse, and the result is lowercased by \<^verbatim>\<open>str.lower\<close>. Constructing the metadata from
  a manifest that declares an id which differs from its normal form, or from the base name
  of the directory, fails with ValueError, the code's InvalidManifest.
\<close>

theorem manifest_id_checked:
  "importable_normalise lib name = spec_normalise lib name \<and>
   re_sub_runs (re_sub_runs name) = re_sub_runs name \<and>
   (files (pdir @ [''pyproject.toml'']) = Some toml \<and>
    tomllib_loads lib toml = Inr (Some project) \<and>
    pj_id project = Some i \<and>
    (i \<noteq> importable_normalise lib i \<or> i \<noteq> path_name pdir) \<longrightarrow>
      (\<exists>msg. StraponMetadata_init lib cwd files n pdir = Inl (ValueError msg)))"
proof (intro conjI impI)
  show "importable_normalise lib name = spec_normalise lib name"
    by (rule importable_normalise_refines)
  show "re_sub_runs (re_sub_runs name) = re_sub_runs name"
    by (rule re_sub_runs_fixed)
next
  assume "files (pdir @ [''pyproject.toml'']) = Some toml \<and>
    tomllib_loads lib toml = Inr (Some project) \<and>
    pj_id project = Some i \<and>
    (i \<noteq> importable_normalise lib i \<or> i \<noteq> path_name pdir)"
  then show "\<exists>msg. StraponMetadata_init lib cwd files n pdir = Inl (ValueError msg)"
    by (auto simp: StraponMetadata_init_def relative_to_def split: sum.splits option.splits)
qed

lemma normalise_Bad_Id: "importable_normalise demo_lib ''Bad-Id'' = ''bad_id''"
  by (simp add: importable_normalise_def demo_lib_def lower_char_def is_sep_def char_of_eq_iff)

lemma normalise_demo: "importable_normalise demo_lib ''demo'' = ''demo''"
  by (simp add: importable_normalise_def demo_lib_def lower_char_def is_sep_def char_of_eq_iff)

lemma normalise_extra: "importable_normalise demo_lib ''extra'' = ''extra''"
  by (simp add: importable_normalise_def demo_lib_def lower_char_def is_sep_def char_of_eq_iff)

theorem manifest_id_checked_witness:
  "importable_normalise demo_lib ''Bad-Id'' = ''bad_id'' \<and>
   (\<exists>msg. StraponMetadata_init demo_lib [''srv'']
       [[''srv'', ''data'', ''strapons'', ''Bad-Id'', ''pyproject.toml''] \<mapsto> ''Bad-Id'']
       0 [''srv'', ''data'', ''strapons'', ''Bad-Id''] = Inl (ValueError msg))"
proof -
  let ?pdir = "[''srv'', ''data'', ''strapons'', ''Bad-Id'']"
  let ?files = "[[''srv'', ''data'', ''strapons'', ''Bad-Id'', ''pyproject.toml''] \<mapsto> ''Bad-Id'']"
  let ?project = "\<lparr>pj_name = Some ''Bad'', pj_id = Some ''Bad-Id'', pj_dependencies = None\<rparr>"
  have h: "?files (?pdir @ [''pyproject.toml'']) = Some ''Bad-Id'' \<and>
    tomllib_loads demo_lib ''Bad-Id'' = Inr (Some ?project) \<and>
    pj_id ?project = Some ''Bad-Id'' \<and>
    (''Bad-Id'' \<noteq> importable_normalise demo_lib ''Bad-Id'' \<or> ''Bad-Id'' \<noteq> path_name ?pdir)"
  proof -
    have t: "tomllib_loads demo_lib ''Bad-Id'' = Inr (Some ?project)" by (simp add: demo_lib_def)
    show ?thesis by (simp add: t normalise_Bad_Id)
  qed
  from manifest_id_checked
         [where lib = demo_lib and name = "''Bad-Id''" and files = ?files and pdir = ?pdir
            and toml = "''Bad-Id''" and project = ?project and i = "''Bad-Id''"
            and cwd = "[''srv'']" and n = 0]
       h normalise_Bad_Id
  show ?thesis by simp
qed

subsection \<open>Archiving latest.log\<close>











subsection \<open>Discovery\<close>

lemma fs_log_to [simp]: "fs (log_to lv msg w) = fs w"
  by (simp add: log_to_def)

lemma next_obj_log_to [simp]: "next_obj (log_to lv msg w) = next_obj w"
  by (simp add: log_to_def)

lemma logged_log_to [simp]: "logged (log_to lv msg w) = logged w @ [(lv, msg)]"
  by (simp add: log_to_def)

lemma path_name_snoc [simp]: "path_name (p @ [e]) = e"
  by (simp add: path_name_def)

lemma set_add_fresh:
  "\<forall>x \<in> set ms. obj x \<noteq> obj m \<Longrightarrow> set_add m ms = ms @ [m]"
  by (auto simp: set_add_def py_eq_def)

lemma potential_strapons_loop_ids:
  assumes "potential_strapons_loop lib cwd en sd entries potential w = (Inr ms, w')"
    and "distinct entries"
    and "\<forall>m \<in> set potential. obj m < next_obj w \<and> id_str m \<notin> set entries"
    and "\<forall>a \<in> set potential. \<forall>b \<in> set potential. obj a = obj b \<longleftrightarrow> id_str a = id_str b"
  shows "\<forall>a \<in> set ms. \<forall>b \<in> set ms. obj a = obj b \<longleftrightarrow> id_str a = id_str b"
  using assms
proof (induction entries arbitrary: potential w)
  case Nil
  then show ?case by simp
next
  case (Cons entry rest)
  show ?case
  proof (cases "\<not> is_file (fs w) (sd @ [entry, ''__init__.py''])
         \<or> \<not> is_file (fs w) (sd @ [entry, ''pyproject.toml''])")
    case True
    with Cons.prems(1)
    have run: "potential_strapons_loop lib cwd en sd rest potential
             (log_to WARNING (''Skipping non-strapon directory: '' @ path_str (sd @ [entry])) w) = (Inr ms, w')"
      by simp
    from Cons.prems(2) have d: "distinct rest" by simp
    from Cons.prems(3)
    have i: "\<forall>m \<in> set potential.
        obj m < next_obj (log_to WARNING (''Skipping non-strapon directory: '' @ path_str (sd @ [entry])) w)
        \<and> id_str m \<notin> set rest" by simp
    from Cons.IH [OF run d i Cons.prems(4)] show ?thesis .
  next
    case False
    then obtain md where md: "StraponMetadata_init lib cwd (fs w) (next_obj w) (sd @ [entry]) = Inr md"
      using Cons.prems(1) by (auto split: sum.splits)
    from StraponMetadata_init_Inr [OF md]
    have o: "obj md = next_obj w" and n: "id_str md = entry" by simp_all
    let ?p = "if id_str md \<in> set en then set_add md potential else potential"
    from Cons.prems(1) False md
    have run: "potential_strapons_loop lib cwd en sd rest ?p (w\<lparr>next_obj := Suc (next_obj w)\<rparr>)
        = (Inr ms, w')" by simp
    from Cons.prems(2) have d: "distinct rest" and e: "entry \<notin> set rest" by simp_all
    have fresh: "\<forall>x \<in> set potential. obj x \<noteq> obj md"
      using Cons.prems(3) o by auto
    have sub: "set ?p \<subseteq> insert md (set potential)"
      by (simp add: set_add_fresh [OF fresh] subset_insertI)
    have i: "\<forall>m \<in> set ?p. obj m < next_obj (w\<lparr>next_obj := Suc (next_obj w)\<rparr>)
        \<and> id_str m \<notin> set rest"
      using sub Cons.prems(3) o n e by (auto simp: less_Suc_eq)
    have idn: "\<forall>x \<in> set potential. id_str x \<noteq> id_str md"
      using Cons.prems(3) n by auto
    have j: "\<forall>a \<in> set ?p. \<forall>b \<in> set ?p. obj a = obj b \<longleftrightarrow> id_str a = id_str b"
    proof (intro ballI)
      fix a b assume "a \<in> set ?p" "b \<in> set ?p"
      with sub have "a = md \<or> a \<in> set potential" "b = md \<or> b \<in> set potential" by auto
      then show "obj a = obj b \<longleftrightarrow> id_str a = id_str b"
        using fresh idn Cons.prems(4) by metis
    qed
    from Cons.IH [OF run d i j] show ?thesis .
  qed
qed


lemma demo_init:
  "files (demo_dir @ [''pyproject.toml'']) = Some ''demo'' \<Longrightarrow>
   StraponMetadata_init demo_lib [''srv''] files n demo_dir = Inr (demo_metadata\<lparr>obj := n\<rparr>)"
proof -
  have t: "tomllib_loads demo_lib ''demo'' = Inr (Some demo_project)"
    and r: "parse_requirement demo_lib ''pyyaml''
              = Inr \<lparr>req_name = ''pyyaml'', req_specifier = ''>=6'', req_str = ''pyyaml''\<rparr>"
    by (simp_all add: demo_lib_def)
  assume "files (demo_dir @ [''pyproject.toml'']) = Some ''demo''"
  then show ?thesis
    by (simp add: StraponMetadata_init_def demo_dir_def t r normalise_demo
          demo_project_def demo_metadata_def relative_to_def path_name_def as_posix_def)
qed

lemma extra_init:
  "files [''srv'', ''data'', ''strapons'', ''extra'', ''pyproject.toml''] = Some ''extra'' \<Longrightarrow>
   StraponMetadata_init demo_lib [''srv''] files n [''srv'', ''data'', ''strapons'', ''extra'']
     = Inr (extra_metadata\<lparr>obj := n\<rparr>)"
proof -
  have t: "tomllib_loads demo_lib ''extra''
      = Inr (Some \<lparr>pj_name = Some ''Extra'', pj_id = Some ''extra'', pj_dependencies = None\<rparr>)"
    by (simp add: demo_lib_def)
  assume "files [''srv'', ''data'', ''strapons'', ''extra'', ''pyproject.toml''] = Some ''extra''"
  then show ?thesis
    by (simp add: StraponMetadata_init_def t normalise_extra
          extra_metadata_def relative_to_def path_name_def as_posix_def)
qed

lemma demo_world_init:
  "StraponMetadata_init demo_lib [''srv''] (fs demo_world) n demo_dir = Inr (demo_metadata\<lparr>obj := n\<rparr>)"
  by (rule demo_init) (simp add: demo_world_def demo_dir_def)

lemma pair_discovery:
  "potential_strapons demo_lib [''srv''] (Some [''demo'', ''extra'']) [''demo'', ''extra''] pair_world
     = (Inr [demo_metadata, extra_metadata], pair_world\<lparr>next_obj := 2\<rparr>)"
proof -
  have d: "StraponMetadata_init demo_lib [''srv''] (fs pair_world) 0
             [''srv'', ''data'', ''strapons'', ''demo''] = Inr demo_metadata"
    using demo_init [of "fs pair_world" 0]
    by (simp add: pair_world_def demo_dir_def demo_metadata_def)
  have e: "StraponMetadata_init demo_lib [''srv''] (fs pair_world) (Suc 0)
             [''srv'', ''data'', ''strapons'', ''extra''] = Inr extra_metadata"
    using extra_init [of "fs pair_world" "Suc 0"]
    by (simp add: pair_world_def demo_dir_def extra_metadata_def)
  have f: "is_file (fs pair_world) [''srv'', ''data'', ''strapons'', ''demo'', ''__init__.py'']"
    "is_file (fs pair_world) [''srv'', ''data'', ''strapons'', ''demo'', ''pyproject.toml'']"
    "is_file (fs pair_world) [''srv'', ''data'', ''strapons'', ''extra'', ''__init__.py'']"
    "is_file (fs pair_world) [''srv'', ''data'', ''strapons'', ''extra'', ''pyproject.toml'']"
    by (simp_all add: is_file_def pair_world_def demo_dir_def)
  have z: "next_obj pair_world = 0" "[''srv'', ''data'', ''strapons''] \<in> dirs pair_world"
    by (simp_all add: pair_world_def demo_world_def)
  have i: "id_str demo_metadata = ''demo''" "id_str extra_metadata = ''extra''"
    "obj demo_metadata = 0" "obj extra_metadata = 1"
    by (simp_all add: demo_metadata_def extra_metadata_def)
  show ?thesis
    by (simp add: potential_strapons_def data_dir_def f z d e i set_add_def py_eq_def)
qed

text \<open>
  C6, as the code has it. StraponMetadata defines no equality of its own, so two values
  are equal exactly when they are the same object. Among the candidates one discovery
  collects from distinct directory entries this coincides with having the same id: every
  candidate is a new object, and its id is the name of its directory.
\<close>

theorem metadata_equality_within_discovery:
  assumes "distinct entries"
    and "potential_strapons lib cwd enabled entries w = (Inr ms, w')"
    and "a \<in> set ms" and "b \<in> set ms"
  shows "py_eq a b \<longleftrightarrow> id_str a = id_str b"
proof -
  from assms(2) obtain en where
    run: "potential_strapons_loop lib cwd en (data_dir cwd @ [''strapons'']) entries [] w
            = (Inr ms, w')"
    by (auto simp: potential_strapons_def split: if_splits option.splits)
  from potential_strapons_loop_ids [OF run assms(1)] assms(3,4)
  show ?thesis by (simp add: py_eq_def)
qed

text \<open>The witness: a discovery that collects two units; they are different objects with
  different ids.\<close>

theorem metadata_equality_within_discovery_witness:
  "distinct [''demo'', ''extra''] \<and>
   potential_strapons demo_lib [''srv''] (Some [''demo'', ''extra'']) [''demo'', ''extra''] pair_world
     = (Inr [demo_metadata, extra_metadata], pair_world\<lparr>next_obj := 2\<rparr>) \<and>
   (py_eq demo_metadata extra_metadata \<longleftrightarrow> id_str demo_metadata = id_str extra_metadata) \<and>
   \<not> py_eq demo_metadata extra_metadata \<and>
   (py_eq extra_metadata extra_metadata \<longleftrightarrow> id_str extra_metadata = id_str extra_metadata)"
proof -
  have d: "distinct [''demo'', ''extra'']" by simp
  have a: "demo_metadata \<in> set [demo_metadata, extra_metadata]"
    and b: "extra_metadata \<in> set [demo_metadata, extra_metadata]" by simp_all
  have n: "\<not> py_eq demo_metadata extra_metadata"
    by (simp add: py_eq_def demo_metadata_def extra_metadata_def)
  from metadata_equality_within_discovery [OF d pair_discovery a b]
       metadata_equality_within_discovery [OF d pair_discovery b b]
       d pair_discovery n
  show ?thesis by blast
qed

text \<open>
  C6 as stated fails: constructing the metadata of the same directory twice, as discovery
  and then the unit's own \<^verbatim>\<open>Strapon.__init__\<close> do, gives two objects with the same id
  that are not equal.
\<close>

theorem metadata_equality_counterexample:
  "StraponMetadata_init demo_lib [''srv''] (fs demo_world) 0 demo_dir = Inr demo_metadata \<and>
   StraponMetadata_init demo_lib [''srv''] (fs demo_world) 1 demo_dir
     = Inr (demo_metadata\<lparr>obj := 1\<rparr>) \<and>
   id_str demo_metadata = id_str (demo_metadata\<lparr>obj := 1\<rparr>) \<and>
   \<not> py_eq demo_metadata (demo_metadata\<lparr>obj := 1\<rparr>)"
  using demo_world_init [of 0] demo_world_init [of 1]
  by (simp add: py_eq_def demo_metadata_def)

text \<open>
  The guarded path of discovery: a directory entry without \<^verbatim>\<open>__init__.py\<close> or without
  \<^verbatim>\<open>pyproject.toml\<close> never changes what discovery returns, and when discovery returns,
  a warning naming its path has been logged and no candidate carries its name.
\<close>

lemma potential_strapons_loop_cong:
  "fs w = fs v \<Longrightarrow> next_obj w = next_obj v \<Longrightarrow>
   fst (potential_strapons_loop lib cwd en sd entries potential w)
     = fst (potential_strapons_loop lib cwd en sd entries potential v)"
proof (induction entries arbitrary: potential w v)
  case Nil
  show ?case by simp
next
  case (Cons entry rest)
  have a: "fst (potential_strapons_loop lib cwd en sd rest p (log_to lv msg w))
      = fst (potential_strapons_loop lib cwd en sd rest p (log_to lv msg v))" for p lv msg
    using Cons.prems by (intro Cons.IH) simp_all
  have b: "fst (potential_strapons_loop lib cwd en sd rest p (w\<lparr>next_obj := Suc (next_obj w)\<rparr>))
      = fst (potential_strapons_loop lib cwd en sd rest p (v\<lparr>next_obj := Suc (next_obj v)\<rparr>))" for p
    using Cons.prems by (intro Cons.IH) simp_all
  show ?case using Cons.prems a b by (simp split: sum.splits)
qed

lemma potential_strapons_loop_skips:
  "fst (potential_strapons_loop lib cwd en sd entries potential w)
     = fst (potential_strapons_loop lib cwd en sd
         (filter (\<lambda>e. is_file (fs w) (sd @ [e, ''__init__.py''])
                     \<and> is_file (fs w) (sd @ [e, ''pyproject.toml''])) entries) potential w)"
proof (induction entries arbitrary: potential w)
  case Nil
  show ?case by simp
next
  case (Cons entry rest)
  show ?case
  proof (cases "is_file (fs w) (sd @ [entry, ''__init__.py''])
                     \<and> is_file (fs w) (sd @ [entry, ''pyproject.toml''])")
    case True
    have "fst (potential_strapons_loop lib cwd en sd rest p (w\<lparr>next_obj := Suc (next_obj w)\<rparr>))
      = fst (potential_strapons_loop lib cwd en sd
         (filter (\<lambda>e. is_file (fs w) (sd @ [e, ''__init__.py''])
                     \<and> is_file (fs w) (sd @ [e, ''pyproject.toml''])) rest) p
           (w\<lparr>next_obj := Suc (next_obj w)\<rparr>))" for p
      using Cons.IH [of p "w\<lparr>next_obj := Suc (next_obj w)\<rparr>"] by simp
    with True show ?thesis by (simp split: sum.splits)
  next
    case False
    let ?v = "log_to WARNING (''Skipping non-strapon directory: '' @ path_str (sd @ [entry])) w"
    from False have "fst (potential_strapons_loop lib cwd en sd (entry # rest) potential w)
      = fst (potential_strapons_loop lib cwd en sd rest potential ?v)" by auto
    also have "\<dots> = fst (potential_strapons_loop lib cwd en sd rest potential w)"
      by (rule potential_strapons_loop_cong) simp_all
    also have "\<dots> = fst (potential_strapons_loop lib cwd en sd
         (filter (\<lambda>e. is_file (fs w) (sd @ [e, ''__init__.py''])
                     \<and> is_file (fs w) (sd @ [e, ''pyproject.toml''])) rest) potential w)"
      by (rule Cons.IH)
    finally show ?thesis using False by auto
  qed
qed

lemma potential_strapons_loop_logged:
  assumes "potential_strapons_loop lib cwd en sd entries potential w = (Inr ms, w')"
  shows "set (logged w) \<subseteq> set (logged w') \<and>
    (\<forall>e \<in> set entries.
        \<not> (is_file (fs w) (sd @ [e, ''__init__.py''])
           \<and> is_file (fs w) (sd @ [e, ''pyproject.toml''])) \<longrightarrow>
        (WARNING, ''Skipping non-strapon directory: '' @ path_str (sd @ [e])) \<in> set (logged w')) \<and>
    (\<forall>m \<in> set ms. m \<in> set potential \<or>
        (is_file (fs w) (sd @ [id_str m, ''__init__.py''])
           \<and> is_file (fs w) (sd @ [id_str m, ''pyproject.toml''])))"
  using assms
proof (induction entries arbitrary: potential w)
  case Nil
  then show ?case by simp
next
  case (Cons entry rest)
  show ?case
  proof (cases "is_file (fs w) (sd @ [entry, ''__init__.py''])
                     \<and> is_file (fs w) (sd @ [entry, ''pyproject.toml''])")
    case False
    let ?v = "log_to WARNING (''Skipping non-strapon directory: '' @ path_str (sd @ [entry])) w"
    from Cons.prems False
    have run: "potential_strapons_loop lib cwd en sd rest potential ?v = (Inr ms, w')" by auto
    from Cons.IH [OF run] show ?thesis by auto
  next
    case True
    then obtain md where md: "StraponMetadata_init lib cwd (fs w) (next_obj w) (sd @ [entry]) = Inr md"
      using Cons.prems by (auto split: sum.splits)
    from StraponMetadata_init_Inr [OF md] have n: "id_str md = entry" by simp
    let ?p = "if id_str md \<in> set en then set_add md potential else potential"
    from Cons.prems True md
    have run: "potential_strapons_loop lib cwd en sd rest ?p (w\<lparr>next_obj := Suc (next_obj w)\<rparr>)
        = (Inr ms, w')" by simp
    have sub: "set ?p \<subseteq> insert md (set potential)"
      by (auto simp: set_add_def)
    from Cons.IH [OF run] have ih: "set (logged w) \<subseteq> set (logged w')"
      "\<forall>e \<in> set rest.
        \<not> (is_file (fs w) (sd @ [e, ''__init__.py''])
           \<and> is_file (fs w) (sd @ [e, ''pyproject.toml''])) \<longrightarrow>
        (WARNING, ''Skipping non-strapon directory: '' @ path_str (sd @ [e])) \<in> set (logged w')"
      "\<forall>m \<in> set ms. m \<in> set ?p \<or>
        (is_file (fs w) (sd @ [id_str m, ''__init__.py''])
           \<and> is_file (fs w) (sd @ [id_str m, ''pyproject.toml'']))" by simp_all
    have "\<forall>m \<in> set ms. m \<in> set potential \<or>
        (is_file (fs w) (sd @ [id_str m, ''__init__.py''])
           \<and> is_file (fs w) (sd @ [id_str m, ''pyproject.toml'']))"
    proof
      fix m assume "m \<in> set ms"
      with ih(3) sub have "m = md \<or> m \<in> set potential \<or>
        (is_file (fs w) (sd @ [id_str m, ''__init__.py''])
           \<and> is_file (fs w) (sd @ [id_str m, ''pyproject.toml'']))" by blast
      with n True show "m \<in> set potential \<or>
        (is_file (fs w) (sd @ [id_str m, ''__init__.py''])
           \<and> is_file (fs w) (sd @ [id_str m, ''pyproject.toml'']))" by blast
    qed
    with ih(1,2) True show ?thesis by auto
  qed
qed

lemma missing_files_skipped:
  "fst (potential_strapons lib cwd enabled entries w)
     = fst (potential_strapons lib cwd enabled
         (filter (\<lambda>e. is_file (fs w) (data_dir cwd @ [''strapons''] @ [e, ''__init__.py''])
                    \<and> is_file (fs w) (data_dir cwd @ [''strapons''] @ [e, ''pyproject.toml'']))
            entries) w) \<and>
   (potential_strapons lib cwd enabled entries w = (Inr ms, w') \<and> e \<in> set entries \<and>
    \<not> (is_file (fs w) (data_dir cwd @ [''strapons''] @ [e, ''__init__.py''])
       \<and> is_file (fs w) (data_dir cwd @ [''strapons''] @ [e, ''pyproject.toml''])) \<longrightarrow>
      (WARNING, ''Skipping non-strapon directory: '' @ path_str (data_dir cwd @ [''strapons''] @ [e])) \<in> set (logged w') \<and>
      (\<forall>m \<in> set ms. id_str m \<noteq> e))"
proof (intro conjI impI)
  show "fst (potential_strapons lib cwd enabled entries w)
     = fst (potential_strapons lib cwd enabled
         (filter (\<lambda>e. is_file (fs w) (data_dir cwd @ [''strapons''] @ [e, ''__init__.py''])
                    \<and> is_file (fs w) (data_dir cwd @ [''strapons''] @ [e, ''pyproject.toml'']))
            entries) w)"
    using potential_strapons_loop_skips [of lib cwd _ "data_dir cwd @ [''strapons'']" entries "[]" w]
    by (simp add: potential_strapons_def split: option.splits)
next
  assume a: "potential_strapons lib cwd enabled entries w = (Inr ms, w') \<and> e \<in> set entries \<and>
    \<not> (is_file (fs w) (data_dir cwd @ [''strapons''] @ [e, ''__init__.py''])
       \<and> is_file (fs w) (data_dir cwd @ [''strapons''] @ [e, ''pyproject.toml'']))"
  then obtain en where
    run: "potential_strapons_loop lib cwd en (data_dir cwd @ [''strapons'']) entries [] w
            = (Inr ms, w')"
    by (auto simp: potential_strapons_def split: if_splits option.splits)
  from potential_strapons_loop_logged [OF run] a
  show "(WARNING, ''Skipping non-strapon directory: '' @ path_str (data_dir cwd @ [''strapons''] @ [e])) \<in> set (logged w')"
    and "\<forall>m \<in> set ms. id_str m \<noteq> e" by auto
qed



text \<open>
  C3, at a failing input. The strapons directory holds \<^verbatim>\<open>Bad-Id\<close>, whose manifest is
  present but declares an id that is not in normal form, and the valid unit \<^verbatim>\<open>demo\<close>.
  Nothing catches the ValueError of \<^verbatim>\<open>StraponMetadata(subdir_path)\<close>: discovery raises,
  no warning is logged and \<^verbatim>\<open>demo\<close> is not collected, although discovery over \<^verbatim>\<open>demo\<close>
  alone collects it.
\<close>

theorem invalid_manifest_aborts_discovery:
  "potential_strapons demo_lib [''srv''] (Some [''demo'']) [''Bad-Id'', ''demo''] two_units_world
     = (Inl (ValueError ''Project ID must be importable.''), two_units_world) \<and>
   potential_strapons demo_lib [''srv''] (Some [''demo'']) [''demo''] two_units_world
     = (Inr [demo_metadata], two_units_world\<lparr>next_obj := 1\<rparr>)"
proof -
  have t: "tomllib_loads demo_lib ''Bad-Id''
      = Inr (Some \<lparr>pj_name = Some ''Bad'', pj_id = Some ''Bad-Id'', pj_dependencies = None\<rparr>)"
    by (simp add: demo_lib_def)
  have f: "fs two_units_world [''srv'', ''data'', ''strapons'', ''Bad-Id'', ''pyproject.toml'']
             = Some ''Bad-Id''"
    "is_file (fs two_units_world) [''srv'', ''data'', ''strapons'', ''Bad-Id'', ''__init__.py'']"
    "is_file (fs two_units_world) [''srv'', ''data'', ''strapons'', ''Bad-Id'', ''pyproject.toml'']"
    "is_file (fs two_units_world) [''srv'', ''data'', ''strapons'', ''demo'', ''__init__.py'']"
    "is_file (fs two_units_world) [''srv'', ''data'', ''strapons'', ''demo'', ''pyproject.toml'']"
    by (simp_all add: is_file_def two_units_world_def demo_dir_def)
  have z: "next_obj two_units_world = 0" "[''srv'', ''data'', ''strapons''] \<in> dirs two_units_world"
    by (simp_all add: two_units_world_def demo_world_def)
  have b: "StraponMetadata_init demo_lib [''srv''] (fs two_units_world) 0
             [''srv'', ''data'', ''strapons'', ''Bad-Id'']
           = Inl (ValueError ''Project ID must be importable.'')"
    by (simp add: StraponMetadata_init_def relative_to_def f(1) t normalise_Bad_Id)
  have d: "StraponMetadata_init demo_lib [''srv''] (fs two_units_world) 0
             [''srv'', ''data'', ''strapons'', ''demo''] = Inr demo_metadata"
    using demo_init [of "fs two_units_world" 0]
    by (simp add: two_units_world_def demo_dir_def demo_metadata_def)
  have i: "id_str demo_metadata = ''demo''" by (simp add: demo_metadata_def)
  show ?thesis
    by (simp add: potential_strapons_def data_dir_def f z b d i set_add_def)
qed

subsection \<open>Rollback of a failed load\<close>

text \<open>What each step of a load leaves unchanged.\<close>

lemma log_to_fields [simp]:
  "sys_modules (log_to lv msg w) = sys_modules w"
  "extensions (log_to lv msg w) = extensions w"
  "cogs (log_to lv msg w) = cogs w"
  "installed (log_to lv msg w) = installed w"
  by (simp_all add: log_to_def)

lemma fold_log_to_fields [simp]:
  "sys_modules (fold (log_to lv) msgs w) = sys_modules w"
  "extensions (fold (log_to lv) msgs w) = extensions w"
  "cogs (fold (log_to lv) msgs w) = cogs w"
  "installed (fold (log_to lv) msgs w) = installed w"
  by (induction msgs arbitrary: w) simp_all

lemma install_requirements_frame:
  "sys_modules (snd (install_requirements lib self w)) = sys_modules w \<and>
   extensions (snd (install_requirements lib self w)) = extensions w \<and>
   cogs (snd (install_requirements lib self w)) = cogs w"
  by (simp add: install_requirements_def Let_def)


lemma mkdir_parents_fields:
  "mkdir_parents p w = Inr w1 \<Longrightarrow>
     sys_modules w1 = sys_modules w \<and> extensions w1 = extensions w \<and> cogs w1 = cogs w \<and>
     spawned w1 = spawned w \<and> installed w1 = installed w"
  by (auto simp: mkdir_parents_def split: if_splits)

lemma copy_fields:
  "copy src dst w = Inr w1 \<Longrightarrow>
     sys_modules w1 = sys_modules w \<and> extensions w1 = extensions w \<and> cogs w1 = cogs w \<and>
     spawned w1 = spawned w \<and> installed w1 = installed w"
  by (auto simp: copy_def split: option.splits)


lemma Strapon_init_fields:
  assumes "Strapon_init lib cwd p cfg w = (r, w1)"
  shows "sys_modules w1 = sys_modules w \<and> extensions w1 = extensions w \<and> cogs w1 = cogs w \<and>
     spawned w1 = spawned w \<and> installed w1 = installed w"
proof (cases "StraponMetadata_init lib cwd (fs w) (next_obj w) p")
  case (Inl e)
  with assms show ?thesis by (simp add: Strapon_init_def)
next
  case (Inr md)
  show ?thesis
  proof (cases "mkdir_parents (data_dir cwd @ [''storage'', id_str md])
             (w\<lparr>next_obj := Suc (next_obj w)\<rparr>)")
    case (Inl e)
    with Inr assms show ?thesis by (auto simp: Strapon_init_def)
  next
    case w2: (Inr w2)
    from mkdir_parents_fields [OF w2] have f: "sys_modules w2 = sys_modules w \<and>
      extensions w2 = extensions w \<and> cogs w2 = cogs w \<and>
      spawned w2 = spawned w \<and> installed w2 = installed w" by simp
    from assms Inr w2 have "w1 = w2"
      by (auto simp: Strapon_init_def split: option.splits if_splits)
    with f show ?thesis by simp
  qed
qed

lemma load_config_fields:
  assumes "load_config lib cwd self w = (r, w1)"
  shows "sys_modules w1 = sys_modules w \<and> extensions w1 = extensions w \<and> cogs w1 = cogs w \<and>
     spawned w1 = spawned w \<and> installed w1 = installed w"
proof (cases "config self")
  case None
  with assms show ?thesis by (simp add: load_config_def)
next
  case (Some c)
  show ?thesis
  proof (cases "priv_config_path c")
    case None
    with Some assms show ?thesis by (simp add: load_config_def)
  next
    case cp: (Some cp)
    show ?thesis
    proof (cases "default_config_file self")
      case None
      with Some cp assms show ?thesis by (simp add: load_config_def)
    next
      case dflt: (Some dflt)
      let ?seed = "if \<not> is_file (fs w) cp
            then (case mkdir_parents (butlast cp) w of
                    Inl e \<Rightarrow> Inl e
                  | Inr w1 \<Rightarrow> copy dflt cp w1)
            else Inr w"
      show ?thesis
      proof (cases ?seed)
        case (Inl e)
        with Some cp dflt assms show ?thesis by (simp add: load_config_def)
      next
        case (Inr w2)
        have f: "sys_modules w2 = sys_modules w \<and> extensions w2 = extensions w \<and>
          cogs w2 = cogs w \<and> spawned w2 = spawned w \<and> installed w2 = installed w"
        proof (cases "is_file (fs w) cp")
          case True
          with Inr show ?thesis by simp
        next
          case False
          with Inr obtain v where v: "mkdir_parents (butlast cp) w = Inr v" "copy dflt cp v = Inr w2"
            by (cases "mkdir_parents (butlast cp) w") simp_all
          from mkdir_parents_fields [OF v(1)] copy_fields [OF v(2)] show ?thesis by metis
        qed
        obtain rl c' where l: "load (yaml_load lib) cwd (fs w2) c cp = (rl, c')"
          by (cases "load (yaml_load lib) cwd (fs w2) c cp")
        from Some cp dflt Inr l assms have "w1 = w2"
          by (cases rl) (simp_all add: load_config_def)
        with f show ?thesis by simp
      qed
    qed
  qed
qed

lemma add_cogs_fields:
  "add_cogs cs w = (r, w1) \<Longrightarrow>
     sys_modules w1 = sys_modules w \<and> extensions w1 = extensions w \<and> spawned w1 = spawned w"
proof (induction cs arbitrary: w)
  case Nil
  then show ?case by simp
next
  case (Cons c cs)
  show ?case
  proof (cases "add_cog c w")
    case (Inl e)
    with Cons.prems show ?thesis by simp
  next
    case (Inr v)
    then have "v = w\<lparr>cogs := cogs w @ [c]\<rparr>"
      by (simp add: add_cog_def split: if_splits)
    then have "sys_modules v = sys_modules w \<and> extensions v = extensions w \<and> spawned v = spawned w"
      by simp
    moreover from Cons.prems Inr have "add_cogs cs v = (r, w1)" by simp
    from Cons.IH [OF this] have "sys_modules w1 = sys_modules v \<and> extensions w1 = extensions v
       \<and> spawned w1 = spawned v" .
    ultimately show ?thesis by (simp only:)
  qed
qed




lemma Strapon_load_fields:
  assumes "Strapon_load lib cwd self w = (r, w1)"
  shows "sys_modules w1 = sys_modules w \<and> extensions w1 = extensions w"
proof (cases "load_config lib cwd self w")
  case (Pair rc wc)
  from load_config_fields [OF Pair]
  have c: "sys_modules wc = sys_modules w \<and> extensions wc = extensions w" by simp
  show ?thesis
  proof (cases rc)
    case (Inl e)
    with assms Pair c show ?thesis by (simp add: Strapon_load_def)
  next
    case (Inr self1)
    obtain ri wi where i: "install_requirements lib self1 wc = (ri, wi)" by (cases "install_requirements lib self1 wc")
    from install_requirements_frame [of lib self1 wc] i
    have d: "sys_modules wi = sys_modules wc \<and> extensions wi = extensions wc" by simp
    show ?thesis
    proof (cases "ri = Inr False")
      case True
      with assms Pair Inr i have "add_cogs (priv_cogs self1) wi = (r, w1)"
        by (simp add: Strapon_load_def)
      from add_cogs_fields [OF this] c d show ?thesis by metis
    next
      case False
      with assms Pair Inr i have "w1 = wi"
        by (cases ri) (auto simp: Strapon_load_def split: if_splits)
      with c d show ?thesis by metis
    qed
  qed
qed

lemma run_setup_fields:
  assumes "run_setup lib cwd key body w = (r, w1)"
  shows "sys_modules w1 = sys_modules w \<and> extensions w1 = extensions w"
proof (cases body)
  case (SetupRaises e)
  with assms show ?thesis by (simp add: run_setup_def)
next
  case (SetupReturns rv)
  show ?thesis
  proof (cases rv)
    case NotAStrapon
    with assms SetupReturns show ?thesis by (simp add: run_setup_def)
  next
    case (MakeStrapon p cfg cgs)
    obtain ri wi where i: "Strapon_init lib cwd p (map_option StraponConfig_init cfg) w = (ri, wi)"
      by (cases "Strapon_init lib cwd p (map_option StraponConfig_init cfg) w")
    from Strapon_init_fields [OF i]
    have c: "sys_modules wi = sys_modules w \<and> extensions wi = extensions w" by simp
    show ?thesis
    proof (cases ri)
      case (Inl e)
      with assms SetupReturns MakeStrapon i c show ?thesis by (simp add: run_setup_def)
    next
      case (Inr strapon)
      obtain rl wl where l: "Strapon_load lib cwd (fold register_cog cgs strapon) wi = (rl, wl)"
        by (cases "Strapon_load lib cwd (fold register_cog cgs strapon) wi")
      from Strapon_load_fields [OF l]
      have d: "sys_modules wl = sys_modules wi \<and> extensions wl = extensions wi" .
      from assms SetupReturns MakeStrapon i Inr l have "w1 = wl"
        by (cases rl) (simp_all add: run_setup_def)
      with c d show ?thesis by metis
    qed
  qed
qed

lemma cleanup_fields:
  "key \<notin> sys_modules (call_module_finalizers name key (remove_module_references name w)) \<and>
   key \<notin> extensions (call_module_finalizers name key (remove_module_references name w)) \<and>
   (\<forall>c \<in> set (cogs (call_module_finalizers name key (remove_module_references name w))).
      \<not> is_submodule name (cog_module c)) \<and>
   (\<forall>m \<in> sys_modules (call_module_finalizers name key (remove_module_references name w)).
      \<not> is_submodule name m)"
  by (simp add: call_module_finalizers_def remove_module_references_def)

text \<open>
  C1, as the code has it. Take a unit that is not registered: its key is not in the
  extension table and no registered cog belongs to its module or a submodule of it. When
  \<open>load_from_module_spec\<close> raises, at whatever stage (executing the module, a missing
  or non-coroutine \<^verbatim>\<open>setup\<close>, an exception in \<^verbatim>\<open>setup\<close>, a return value that is not a
  Strapon, a failing \<^verbatim>\<open>load()\<close>, or the reload signal), the key is afterwards neither in
  \<^verbatim>\<open>sys.modules\<close> nor in the extension table, and no registered cog has its class defined
  in the unit's module or a submodule of it. When the failure comes after the entry-point
  checks, no submodule of the unit is left in \<^verbatim>\<open>sys.modules\<close> either.
\<close>

theorem failed_load_leaves_no_entry:
  assumes "load_from_module_spec lib cwd spec key w = (Inl e, w')"
    and "spec_name spec = key"
    and "key \<notin> extensions w"
    and "\<forall>c \<in> set (cogs w). \<not> is_submodule key (cog_module c)"
  shows "key \<notin> sys_modules w' \<and> key \<notin> extensions w' \<and>
         (\<forall>c \<in> set (cogs w'). \<not> is_submodule key (cog_module c)) \<and>
         ((\<exists>body. exec_module spec = ExecOk (Coroutine body)) \<longrightarrow>
            (\<forall>m \<in> sys_modules w'. \<not> is_submodule key m))"
proof -
  let ?w0 = "w\<lparr>sys_modules := insert key (sys_modules w) \<union> set (exec_imports spec)\<rparr>"
  have early: "key \<notin> sys_modules v \<and> key \<notin> extensions v \<and>
         (\<forall>c \<in> set (cogs v). \<not> is_submodule key (cog_module c))"
    if "del_and_raise key x ?w0 = (Inl e, v)" for x v
    using that assms(3,4) by (auto simp: del_and_raise_def del_sys_modules_def)
  show ?thesis
  proof (cases "exec_module spec")
    case (ExecRaises error)
    with assms(1) have "del_and_raise key (ExtensionFailed key error) ?w0 = (Inl e, w')"
      by (simp add: load_from_module_spec_def)
    from early [OF this] ExecRaises show ?thesis by simp
  next
    case (ExecOk attr)
    show ?thesis
    proof (cases attr)
      case NoSetup
      with ExecOk assms(1) have "del_and_raise key (NoEntryPointError key) ?w0 = (Inl e, w')"
        by (simp add: load_from_module_spec_def)
      from early [OF this] ExecOk NoSetup show ?thesis by simp
    next
      case NotCoroutine
      with ExecOk assms(1)
      have "del_and_raise key (ExtensionFailed key (ValueError ''setup() must be a coroutine''))
              ?w0 = (Inl e, w')"
        by (simp add: load_from_module_spec_def)
      from early [OF this] ExecOk NotCoroutine show ?thesis by simp
    next
      case (Coroutine body)
      obtain rs ws where s: "run_setup lib cwd key body ?w0 = (rs, ws)"
        by (cases "run_setup lib cwd key body ?w0")
      from run_setup_fields [OF s] have k: "key \<in> sys_modules ws" by simp
      show ?thesis
      proof (cases rs)
        case (Inr ret_value)
        with ExecOk Coroutine s assms(1) show ?thesis
          by (simp add: load_from_module_spec_def)
      next
        case (Inl error)
        with ExecOk Coroutine s k assms(1,2)
        have weq: "w' = call_module_finalizers key key
                 (remove_module_references key (ws\<lparr>sys_modules := sys_modules ws - {key}\<rparr>))"
          by (simp add: load_from_module_spec_def del_sys_modules_def)
        from cleanup_fields [of key key "ws\<lparr>sys_modules := sys_modules ws - {key}\<rparr>"]
        show ?thesis unfolding weq by blast
      qed
    qed
  qed
qed

lemma ready_world_facts:
  "fs ready_world = fs demo_world" "next_obj ready_world = 0" "cogs ready_world = []"
  "sys_modules ready_world = {}" "extensions ready_world = {}"
  "installed ready_world = [\<lparr>dist_name = ''pyyaml'', dist_version = ''6.0''\<rparr>]"
  by (simp_all add: ready_world_def demo_world_def)

lemma storage_free:
  "q \<in> set (prefixes [''srv'', ''data'', ''storage'', ''demo'']) \<Longrightarrow> \<not> is_file (fs demo_world) q"
  by (auto simp: is_file_def demo_world_def demo_dir_def)

lemma pyyaml_satisfied:
  "\<not> is_unsatisfied demo_lib [\<lparr>dist_name = ''pyyaml'', dist_version = ''6.0''\<rparr>]
      \<lparr>req_name = ''pyyaml'', req_specifier = ''>=6'', req_str = ''pyyaml''\<rparr>"
  by (simp add: is_unsatisfied_def demo_lib_def)

lemma clash_fails:
  "fst (load_from_module_spec demo_lib [''srv''] clash_spec ''data.strapons.demo'' ready_world)
     = Inl (ExtensionFailed ''data.strapons.demo'' (ClientException ''Cog already loaded''))"
  by (simp add: load_from_module_spec_def clash_spec_def run_setup_def Strapon_init_def
        ready_world_facts demo_world_init mkdir_parents_def storage_free data_dir_def
        demo_metadata_def Strapon_load_def load_config_def register_cog_def
        install_requirements_def pyyaml_satisfied add_cog_def
        del_sys_modules_def is_RequirementInstallSuccessError_def)

text \<open>The witness: the second cog is refused, after the first one was registered; the
  first one is gone after the failure, and so is the submodule that defines it.\<close>

theorem failed_load_leaves_no_entry_witness:
  "fst (load_from_module_spec demo_lib [''srv''] clash_spec ''data.strapons.demo'' ready_world)
     = Inl (ExtensionFailed ''data.strapons.demo'' (ClientException ''Cog already loaded'')) \<and>
   ''data.strapons.demo'' \<notin> sys_modules
      (snd (load_from_module_spec demo_lib [''srv''] clash_spec ''data.strapons.demo'' ready_world)) \<and>
   ''data.strapons.demo'' \<notin> extensions
      (snd (load_from_module_spec demo_lib [''srv''] clash_spec ''data.strapons.demo'' ready_world)) \<and>
   \<lparr>cog_name = ''Greeter'', cog_module = ''data.strapons.demo.cogs''\<rparr> \<notin> set (cogs
      (snd (load_from_module_spec demo_lib [''srv''] clash_spec ''data.strapons.demo'' ready_world))) \<and>
   ''data.strapons.demo.cogs'' \<notin> sys_modules
      (snd (load_from_module_spec demo_lib [''srv''] clash_spec ''data.strapons.demo'' ready_world))"
proof -
  let ?run = "load_from_module_spec demo_lib [''srv''] clash_spec ''data.strapons.demo'' ready_world"
  let ?e = "ExtensionFailed ''data.strapons.demo'' (ClientException ''Cog already loaded'')"
  from clash_fails have h1: "?run = (Inl ?e, snd ?run)" by (metis prod.collapse)
  have h2: "spec_name clash_spec = ''data.strapons.demo''" by (simp add: clash_spec_def)
  have h3: "''data.strapons.demo'' \<notin> extensions ready_world"
    by (simp add: ready_world_facts)
  have h4: "\<forall>c \<in> set (cogs ready_world). \<not> is_submodule ''data.strapons.demo'' (cog_module c)"
    by (simp add: ready_world_facts)
  have h5: "\<exists>body. exec_module clash_spec = ExecOk (Coroutine body)"
    by (simp add: clash_spec_def)
  have sub: "is_submodule ''data.strapons.demo''
      (cog_module \<lparr>cog_name = ''Greeter'', cog_module = ''data.strapons.demo.cogs''\<rparr>)"
    "is_submodule ''data.strapons.demo'' ''data.strapons.demo.cogs''"
    by (simp_all add: is_submodule_def)
  from failed_load_leaves_no_entry [OF h1 h2 h3 h4] h5 sub clash_fails show ?thesis by blast
qed

text \<open>
  C1 as stated fails: the unit registers a cog whose class is defined outside the unit and
  then a second cog of the same name. The load fails at the second cog; the rollback
  removes cogs by the module of their class, so the first cog stays registered.
\<close>

theorem foreign_cog_counterexample:
  "fst (load_from_module_spec demo_lib [''srv''] foreign_spec ''data.strapons.demo'' ready_world)
     = Inl (ExtensionFailed ''data.strapons.demo'' (ClientException ''Cog already loaded'')) \<and>
   cogs ready_world = [] \<and>
   cogs (snd (load_from_module_spec demo_lib [''srv''] foreign_spec ''data.strapons.demo''
                ready_world))
     = [\<lparr>cog_name = ''Greeter'', cog_module = ''harness.components.strapon''\<rparr>]"
  by (simp add: load_from_module_spec_def foreign_spec_def run_setup_def Strapon_init_def
        ready_world_facts demo_world_init mkdir_parents_def storage_free data_dir_def
        demo_metadata_def Strapon_load_def load_config_def register_cog_def
        install_requirements_def pyyaml_satisfied add_cog_def
        del_sys_modules_def is_RequirementInstallSuccessError_def
        call_module_finalizers_def remove_module_references_def is_submodule_def)

subsection \<open>The retry after an install\<close>

lemma fs_fold_log_to [simp]: "fs (fold (log_to lv) msgs w) = fs w"
  by (induction msgs arbitrary: w) simp_all

lemma install_requirements_fs:
  "fs (snd (install_requirements lib self w)) = fs w"
  by (simp add: install_requirements_def Let_def)

lemma install_requirements_installed:
  "filter (is_unsatisfied lib (installed w)) (requirements (metadata self)) \<noteq> [] \<Longrightarrow>
   installed (snd (install_requirements lib self w)) =
     installed_after (create_subprocess_exec lib
       (install_cmd lib (filter (is_unsatisfied lib (installed w)) (requirements (metadata self))))
       (installed w))"
  by (simp add: install_requirements_def Let_def)

lemma install_requirements_result:
  "filter (is_unsatisfied lib (installed w)) (requirements (metadata self)) \<noteq> [] \<Longrightarrow>
   fst (install_requirements lib self w) =
     (if returncode (create_subprocess_exec lib
           (install_cmd lib (filter (is_unsatisfied lib (installed w)) (requirements (metadata self))))
           (installed w)) \<noteq> 0
      then Inl (CalledProcessError (returncode (create_subprocess_exec lib
           (install_cmd lib (filter (is_unsatisfied lib (installed w)) (requirements (metadata self))))
           (installed w)))
           (install_cmd lib (filter (is_unsatisfied lib (installed w)) (requirements (metadata self)))))
      else Inr True)"
  by (simp add: install_requirements_def Let_def)

lemma dependency_check_run:
  assumes "dependency_check lib cwd spec key w = Some (missing, wa)"
    and "missing \<noteq> []"
  shows "\<exists>w'. load_from_module_spec lib cwd spec key w =
      (Inl (if returncode (create_subprocess_exec lib (install_cmd lib missing) (installed wa)) = 0
            then RequirementInstallSuccessError
                   ''New requirements were installed. Strapon reload required.''
            else ExtensionFailed key (CalledProcessError
                   (returncode (create_subprocess_exec lib (install_cmd lib missing) (installed wa)))
                   (install_cmd lib missing))), w') \<and>
      spawned w' = spawned w @ [install_cmd lib missing] \<and>
      installed w' =
        installed_after (create_subprocess_exec lib (install_cmd lib missing) (installed wa)) \<and>
      fs w' = fs wa \<and> extensions w' = extensions w - {key}"
proof -
  let ?w0 = "w\<lparr>sys_modules := insert key (sys_modules w) \<union> set (exec_imports spec)\<rparr>"
  from assms(1) obtain path cfg cgs where
    ex: "exec_module spec = ExecOk (Coroutine (SetupReturns (MakeStrapon path cfg cgs)))"
    by (auto simp: dependency_check_def
             split: exec_result.splits setup_attr.splits setup_body.splits ret_value.splits)
  obtain ri wi where i: "Strapon_init lib cwd path (map_option StraponConfig_init cfg) ?w0 = (ri, wi)"
    by (cases "Strapon_init lib cwd path (map_option StraponConfig_init cfg) ?w0")
  from assms(1) ex i obtain strapon where ri: "ri = Inr strapon"
    by (cases ri) (simp_all add: dependency_check_def)
  obtain rc wc where c: "load_config lib cwd (fold register_cog cgs strapon) wi = (rc, wc)"
    by (cases "load_config lib cwd (fold register_cog cgs strapon) wi")
  from assms(1) ex i ri c obtain self1 where rc: "rc = Inr self1"
    by (cases rc) (simp_all add: dependency_check_def)
  from assms(1) ex i ri c rc
  have wa: "wa = wc"
    and mis: "missing = filter (is_unsatisfied lib (installed wc)) (requirements (metadata self1))"
    by (auto simp: dependency_check_def)
  from Strapon_init_fields [OF i] load_config_fields [OF c]
  have f: "key \<in> sys_modules wc" "spawned wc = spawned w" "extensions wc = extensions w"
    by simp_all
  let ?p = "create_subprocess_exec lib (install_cmd lib missing) (installed wc)"
  obtain rq wq where q: "install_requirements lib self1 wc = (rq, wq)"
    by (cases "install_requirements lib self1 wc")
  from install_requirements_frame [of lib self1 wc] q f
  have g: "key \<in> sys_modules wq" and eq: "extensions wq = extensions w" by simp_all
  have ne: "filter (is_unsatisfied lib (installed wc)) (requirements (metadata self1)) \<noteq> []"
    using assms(2) mis by simp
  from install_requirements_spawned [OF ne] q mis f
  have sp: "spawned wq = spawned w @ [install_cmd lib missing]" by simp
  have rq: "rq = (if returncode ?p \<noteq> 0
                  then Inl (CalledProcessError (returncode ?p) (install_cmd lib missing))
                  else Inr True)"
    using install_requirements_result [OF ne] q mis by simp
  have iq: "installed wq = installed_after ?p"
    using install_requirements_installed [OF ne] q mis by simp
  have fq: "fs wq = fs wc"
    using install_requirements_fs [of lib self1 wc] q by simp
  have sl: "Strapon_load lib cwd (fold register_cog cgs strapon) wi
      = (if returncode ?p \<noteq> 0
         then Inl (CalledProcessError (returncode ?p) (install_cmd lib missing))
         else Inl (RequirementInstallSuccessError
                  ''New requirements were installed. Strapon reload required.''), wq)"
    using c rc q rq by (simp add: Strapon_load_def)
  have rs: "run_setup lib cwd key (SetupReturns (MakeStrapon path cfg cgs)) ?w0
      = (if returncode ?p \<noteq> 0
         then Inl (CalledProcessError (returncode ?p) (install_cmd lib missing))
         else Inl (RequirementInstallSuccessError
                  ''New requirements were installed. Strapon reload required.''), wq)"
    using i ri sl by (simp add: run_setup_def)
  have sc: "spawned (call_module_finalizers n key (remove_module_references n
              (wq\<lparr>sys_modules := sys_modules wq - {key}\<rparr>))) = spawned wq"
    "installed (call_module_finalizers n key (remove_module_references n
              (wq\<lparr>sys_modules := sys_modules wq - {key}\<rparr>))) = installed wq"
    "fs (call_module_finalizers n key (remove_module_references n
              (wq\<lparr>sys_modules := sys_modules wq - {key}\<rparr>))) = fs wq"
    "extensions (call_module_finalizers n key (remove_module_references n
              (wq\<lparr>sys_modules := sys_modules wq - {key}\<rparr>))) = extensions wq - {key}" for n
    by (simp_all add: call_module_finalizers_def remove_module_references_def)
  show ?thesis
    using ex rs g sp sc iq fq eq wa
    by (simp add: load_from_module_spec_def del_sys_modules_def
          is_RequirementInstallSuccessError_def)
qed

lemma load_extension_retry:
  assumes "name \<notin> extensions w" and "find_spec lib name = Some spec"
    and "load_from_module_spec lib cwd spec name w = (Inl (RequirementInstallSuccessError m), w1)"
  shows "load_extension lib cwd name w =
     load_from_module_spec lib cwd spec name
       (log_to DEBUG (''Requirements installed for '' @ name @ ''. Re-importing.'') w1)"
  using assms by (simp add: load_extension_def is_RequirementInstallSuccessError_def)

text \<open>
  C2, as the code has it. When the dependency check reports missing requirements on the
  first attempt and on the retry, and the installer exits with 0 both times, the load
  fails with the reload signal itself (the code's RepeatedReloadRequired): the result is
  that of the second run of the lifecycle, there is no third run, the installer was
  started exactly twice, and the unit is not in the extension table.
\<close>

theorem second_reload_is_failure:
  assumes "name \<notin> extensions w" and "find_spec lib name = Some spec"
    and "dependency_check lib cwd spec name w = Some (missing1, wa)" and "missing1 \<noteq> []"
    and "returncode (create_subprocess_exec lib (install_cmd lib missing1) (installed wa)) = 0"
    and "dependency_check lib cwd spec name
           (log_to DEBUG (''Requirements installed for '' @ name @ ''. Re-importing.'')
              (snd (load_from_module_spec lib cwd spec name w))) = Some (missing2, wb)"
    and "missing2 \<noteq> []"
    and "returncode (create_subprocess_exec lib (install_cmd lib missing2) (installed wb)) = 0"
  shows "\<exists>w2. load_extension lib cwd name w =
           (Inl (RequirementInstallSuccessError
                   ''New requirements were installed. Strapon reload required.''), w2) \<and>
         load_extension lib cwd name w =
           load_from_module_spec lib cwd spec name
             (log_to DEBUG (''Requirements installed for '' @ name @ ''. Re-importing.'')
                (snd (load_from_module_spec lib cwd spec name w))) \<and>
         spawned w2 = spawned w @ [install_cmd lib missing1, install_cmd lib missing2] \<and>
         name \<notin> extensions w2"
proof -
  let ?again = "log_to DEBUG (''Requirements installed for '' @ name @ ''. Re-importing.'')"
  from dependency_check_run [OF assms(3,4)] assms(5)
  obtain w1 where
    r1: "load_from_module_spec lib cwd spec name w =
           (Inl (RequirementInstallSuccessError
                   ''New requirements were installed. Strapon reload required.''), w1)"
    and s1: "spawned w1 = spawned w @ [install_cmd lib missing1]"
    by auto
  from r1 have w1: "snd (load_from_module_spec lib cwd spec name w) = w1" by simp
  from dependency_check_run [OF assms(6,7)] assms(8) w1
  obtain w2 where
    r2: "load_from_module_spec lib cwd spec name (?again w1) =
           (Inl (RequirementInstallSuccessError
                   ''New requirements were installed. Strapon reload required.''), w2)"
    and s2: "spawned w2 = spawned (?again w1) @ [install_cmd lib missing2]"
    and e2: "extensions w2 = extensions (?again w1) - {name}"
    by auto
  from load_extension_retry [OF assms(1,2) r1]
  have le: "load_extension lib cwd name w = load_from_module_spec lib cwd spec name (?again w1)" .
  from s1 s2 have sp: "spawned w2 = spawned w @ [install_cmd lib missing1, install_cmd lib missing2]"
    by simp
  from e2 have "name \<notin> extensions w2" by simp
  with le r2 sp w1 show ?thesis by simp
qed

lemma always_ok_init:
  "StraponMetadata_init always_ok_lib cwd files n pdir = StraponMetadata_init demo_lib cwd files n pdir"
  by (simp add: StraponMetadata_init_def importable_normalise_def always_ok_lib_def
        cong: sum.case_cong option.case_cong if_cong)

lemma always_ok_unsatisfied:
  "is_unsatisfied always_ok_lib ds r = is_unsatisfied demo_lib ds r"
  by (simp add: is_unsatisfied_iff always_ok_lib_def)

lemma pyyaml_unsatisfied:
  "\<forall>d \<in> set ds. dist_name d \<noteq> ''pyyaml'' \<Longrightarrow> is_unsatisfied demo_lib ds pyyaml_req"
  by (simp add: is_unsatisfied_iff pyyaml_req_def)

lemma demo_dependency_check:
  assumes "StraponMetadata_init lib [''srv''] (fs w) (next_obj w) demo_dir
             = Inr (demo_metadata\<lparr>obj := next_obj w\<rparr>)"
    and "fs w = fs demo_world"
    and "is_unsatisfied lib (installed w) pyyaml_req"
  shows "\<exists>wa. dependency_check lib [''srv''] demo_spec key w = Some ([pyyaml_req], wa) \<and>
           installed wa = installed w \<and> fs wa = fs w"
  using assms
  by (simp add: dependency_check_def demo_spec_def Strapon_init_def mkdir_parents_def
        storage_free data_dir_def demo_metadata_def load_config_def pyyaml_req_def
        register_cog_def)

lemma demo_command:
  "install_cmd demo_lib [pyyaml_req] = [''python3'', ''-m'', ''pip'', ''install'', ''pyyaml'']"
  "install_cmd always_ok_lib [pyyaml_req] = [''python3'', ''-m'', ''pip'', ''install'', ''pyyaml'']"
  by (simp_all add: install_cmd_def demo_lib_def always_ok_lib_def pyyaml_req_def)

lemma demo_world_facts:
  "installed demo_world = []" "extensions demo_world = {}" "spawned demo_world = []"
  by (simp_all add: demo_world_def)


lemma demo_two_checks:
  assumes init: "\<And>files n. StraponMetadata_init lib [''srv''] files n demo_dir
                   = StraponMetadata_init demo_lib [''srv''] files n demo_dir"
    and unsat: "\<And>ds. is_unsatisfied lib ds pyyaml_req = is_unsatisfied demo_lib ds pyyaml_req"
    and rc: "returncode (create_subprocess_exec lib (install_cmd lib [pyyaml_req]) []) = 0"
    and ia: "installed_after (create_subprocess_exec lib (install_cmd lib [pyyaml_req]) [])
               = [\<lparr>dist_name = ''PyYAML'', dist_version = ''6.0''\<rparr>]"
  shows "\<exists>wa w1 wb.
      dependency_check lib [''srv''] demo_spec key demo_world = Some ([pyyaml_req], wa) \<and>
      installed wa = [] \<and>
      load_from_module_spec lib [''srv''] demo_spec key demo_world
        = (Inl (RequirementInstallSuccessError
                  ''New requirements were installed. Strapon reload required.''), w1) \<and>
      dependency_check lib [''srv''] demo_spec key (log_to DEBUG msg w1)
        = Some ([pyyaml_req], wb) \<and>
      installed wb = [\<lparr>dist_name = ''PyYAML'', dist_version = ''6.0''\<rparr>]"
proof -
  have i1: "StraponMetadata_init lib [''srv''] (fs demo_world) (next_obj demo_world) demo_dir
             = Inr (demo_metadata\<lparr>obj := next_obj demo_world\<rparr>)"
    by (simp add: init demo_world_init)
  have u1: "is_unsatisfied lib (installed demo_world) pyyaml_req"
    by (simp add: unsat pyyaml_unsatisfied demo_world_facts)
  from demo_dependency_check [OF i1 refl u1, of key]
  obtain wa where dc1: "dependency_check lib [''srv''] demo_spec key demo_world
                          = Some ([pyyaml_req], wa)"
    and wa: "installed wa = []" "fs wa = fs demo_world"
    by (auto simp: demo_world_facts)
  have ne: "[pyyaml_req] \<noteq> []" by simp
  from dependency_check_run [OF dc1 ne] rc ia wa
  obtain w1 where r1: "load_from_module_spec lib [''srv''] demo_spec key demo_world
        = (Inl (RequirementInstallSuccessError
                  ''New requirements were installed. Strapon reload required.''), w1)"
    and w1: "installed w1 = [\<lparr>dist_name = ''PyYAML'', dist_version = ''6.0''\<rparr>]"
            "fs w1 = fs demo_world"
    by auto
  let ?w = "log_to DEBUG msg w1"
  have f2: "fs ?w = fs demo_world" using w1 by simp
  have i2: "StraponMetadata_init lib [''srv''] (fs ?w) (next_obj ?w) demo_dir
             = Inr (demo_metadata\<lparr>obj := next_obj ?w\<rparr>)"
    unfolding f2 by (simp add: init demo_world_init)
  have u2: "is_unsatisfied lib (installed ?w) pyyaml_req"
    using w1 by (simp add: unsat pyyaml_unsatisfied)
  from demo_dependency_check [OF i2 f2 u2, of key]
  obtain wb where dc2: "dependency_check lib [''srv''] demo_spec key ?w = Some ([pyyaml_req], wb)"
    and wb: "installed wb = [\<lparr>dist_name = ''PyYAML'', dist_version = ''6.0''\<rparr>]"
    using w1 by auto
  from dc1 wa(1) r1 dc2 wb show ?thesis by blast
qed

text \<open>The witness: the installer installs \<^verbatim>\<open>PyYAML\<close>, which never satisfies the requirement
  spelled \<^verbatim>\<open>pyyaml\<close>, and exits with 0 both times.\<close>

theorem second_reload_is_failure_witness:
  "''data.strapons.demo'' \<notin> extensions demo_world \<and>
   find_spec always_ok_lib ''data.strapons.demo'' = Some demo_spec \<and>
   map_option fst (dependency_check always_ok_lib [''srv''] demo_spec ''data.strapons.demo''
                     demo_world) = Some [pyyaml_req] \<and>
   map_option fst (dependency_check always_ok_lib [''srv''] demo_spec ''data.strapons.demo''
      (log_to DEBUG (''Requirements installed for '' @ ''data.strapons.demo'' @ ''. Re-importing.'')
         (snd (load_from_module_spec always_ok_lib [''srv''] demo_spec ''data.strapons.demo''
                 demo_world)))) = Some [pyyaml_req] \<and>
   (\<exists>w2. load_extension always_ok_lib [''srv''] ''data.strapons.demo'' demo_world =
           (Inl (RequirementInstallSuccessError
                   ''New requirements were installed. Strapon reload required.''), w2) \<and>
         spawned w2 = [[''python3'', ''-m'', ''pip'', ''install'', ''pyyaml''],
                       [''python3'', ''-m'', ''pip'', ''install'', ''pyyaml'']] \<and>
         ''data.strapons.demo'' \<notin> extensions w2)"
proof -
  let ?key = "''data.strapons.demo''"
  let ?msg = "''Requirements installed for '' @ ?key @ ''. Re-importing.''"
  have rc: "returncode (create_subprocess_exec always_ok_lib c ds) = 0" for c ds
    by (simp add: always_ok_lib_def)
  have ia: "installed_after (create_subprocess_exec always_ok_lib c [])
               = [\<lparr>dist_name = ''PyYAML'', dist_version = ''6.0''\<rparr>]" for c
    by (simp add: always_ok_lib_def)
  from demo_two_checks [OF always_ok_init always_ok_unsatisfied rc ia, of ?key ?msg]
  obtain wa w1 wb where
    dc1: "dependency_check always_ok_lib [''srv''] demo_spec ?key demo_world
            = Some ([pyyaml_req], wa)"
    and r1: "load_from_module_spec always_ok_lib [''srv''] demo_spec ?key demo_world
        = (Inl (RequirementInstallSuccessError
                  ''New requirements were installed. Strapon reload required.''), w1)"
    and dc2: "dependency_check always_ok_lib [''srv''] demo_spec ?key (log_to DEBUG ?msg w1)
        = Some ([pyyaml_req], wb)"
    by blast
  from r1 have s1: "snd (load_from_module_spec always_ok_lib [''srv''] demo_spec ?key demo_world) = w1"
    by simp
  have h1: "?key \<notin> extensions demo_world" by (simp add: demo_world_facts)
  have h2: "find_spec always_ok_lib ?key = Some demo_spec"
    by (simp add: always_ok_lib_def demo_lib_def)
  have ne: "[pyyaml_req] \<noteq> []" by simp
  from dc2 s1 have dc2': "dependency_check always_ok_lib [''srv''] demo_spec ?key
      (log_to DEBUG ?msg
         (snd (load_from_module_spec always_ok_lib [''srv''] demo_spec ?key demo_world)))
        = Some ([pyyaml_req], wb)" by simp
  from second_reload_is_failure [OF h1 h2 dc1 ne rc dc2' ne rc]
  obtain w2 where "load_extension always_ok_lib [''srv''] ?key demo_world =
           (Inl (RequirementInstallSuccessError
                   ''New requirements were installed. Strapon reload required.''), w2)"
    "spawned w2 = spawned demo_world
        @ [install_cmd always_ok_lib [pyyaml_req], install_cmd always_ok_lib [pyyaml_req]]"
    "?key \<notin> extensions w2" by blast
  then have "\<exists>w2. load_extension always_ok_lib [''srv''] ?key demo_world =
           (Inl (RequirementInstallSuccessError
                   ''New requirements were installed. Strapon reload required.''), w2) \<and>
         spawned w2 = [[''python3'', ''-m'', ''pip'', ''install'', ''pyyaml''],
                       [''python3'', ''-m'', ''pip'', ''install'', ''pyyaml'']] \<and>
         ?key \<notin> extensions w2"
    by (simp add: demo_command demo_world_facts)
  with h1 h2 dc1 dc2' show ?thesis by simp
qed

text \<open>
  C2 as stated fails when the installer of the retry exits with a non-zero code: the
  dependency check reports the requirement missing on both attempts, and the load fails
  with CalledProcessError wrapped in ExtensionFailed, not with the reload signal.
\<close>

theorem failed_retry_install_counterexample:
  "map_option fst (dependency_check demo_lib [''srv''] demo_spec ''data.strapons.demo''
                     demo_world) = Some [pyyaml_req] \<and>
   map_option fst (dependency_check demo_lib [''srv''] demo_spec ''data.strapons.demo''
      (log_to DEBUG (''Requirements installed for '' @ ''data.strapons.demo'' @ ''. Re-importing.'')
         (snd (load_from_module_spec demo_lib [''srv''] demo_spec ''data.strapons.demo''
                 demo_world)))) = Some [pyyaml_req] \<and>
   fst (load_extension demo_lib [''srv''] ''data.strapons.demo'' demo_world)
     = Inl (ExtensionFailed ''data.strapons.demo''
              (CalledProcessError 1 [''python3'', ''-m'', ''pip'', ''install'', ''pyyaml'']))"
proof -
  let ?key = "''data.strapons.demo''"
  let ?msg = "''Requirements installed for '' @ ?key @ ''. Re-importing.''"
  have rc: "returncode (create_subprocess_exec demo_lib c []) = 0" for c
    by (simp add: demo_lib_def)
  have ia: "installed_after (create_subprocess_exec demo_lib c [])
               = [\<lparr>dist_name = ''PyYAML'', dist_version = ''6.0''\<rparr>]" for c
    by (simp add: demo_lib_def)
  from demo_two_checks [OF refl refl rc ia, of ?key ?msg]
  obtain wa w1 wb where
    dc1: "dependency_check demo_lib [''srv''] demo_spec ?key demo_world
            = Some ([pyyaml_req], wa)"
    and r1: "load_from_module_spec demo_lib [''srv''] demo_spec ?key demo_world
        = (Inl (RequirementInstallSuccessError
                  ''New requirements were installed. Strapon reload required.''), w1)"
    and dc2: "dependency_check demo_lib [''srv''] demo_spec ?key (log_to DEBUG ?msg w1)
        = Some ([pyyaml_req], wb)"
    and wb: "installed wb = [\<lparr>dist_name = ''PyYAML'', dist_version = ''6.0''\<rparr>]"
    by blast
  from r1 have s1: "snd (load_from_module_spec demo_lib [''srv''] demo_spec ?key demo_world) = w1"
    by simp
  have rc2: "returncode (create_subprocess_exec demo_lib (install_cmd demo_lib [pyyaml_req])
               (installed wb)) = 1"
    by (simp add: wb demo_lib_def)
  have ne: "[pyyaml_req] \<noteq> []" by simp
  from dependency_check_run [OF dc2 ne] rc2
  obtain w2 where r2: "load_from_module_spec demo_lib [''srv''] demo_spec ?key (log_to DEBUG ?msg w1)
      = (Inl (ExtensionFailed ?key (CalledProcessError 1 (install_cmd demo_lib [pyyaml_req]))), w2)"
    by auto
  have h1: "?key \<notin> extensions demo_world" by (simp add: demo_world_facts)
  have h2: "find_spec demo_lib ?key = Some demo_spec" by (simp add: demo_lib_def)
  from load_extension_retry [OF h1 h2 r1] r2
  have "fst (load_extension demo_lib [''srv''] ?key demo_world)
     = Inl (ExtensionFailed ?key (CalledProcessError 1 (install_cmd demo_lib [pyyaml_req])))"
    by simp
  with dc1 dc2 s1 show ?thesis by (simp add: demo_command)
qed

end
